theory Spec2Isabelle
  imports Main
begin

section \<open>The CORS origin audit plugin (plugins/audit/cors_origin.py)\<close>

text \<open>
  A shallow embedding of the class \<open>cors_origin\<close>. Python 2 byte strings are
  \<open>string\<close> (lists of 8-bit characters), Python integers are \<open>int\<close>, \<open>None\<close> is
  the \<open>None\<close> of \<open>option\<close>, a raised exception is the left summand of a sum, which also
  carries the state reached when the exception left the method.
\<close>

subsection \<open>Python string primitives\<close>

definition is_space :: "char \<Rightarrow> bool" where
  \<comment> \<open>\<open>isspace\<close> of a byte in the C locale: tab, LF, VT, FF, CR and the blank\<close>
  "is_space c = (c \<in> set [CHR 0x09, CHR 0x0A, CHR 0x0B, CHR 0x0C, CHR 0x0D, CHR 0x20])"

definition strip :: "string \<Rightarrow> string" where
  \<comment> \<open>\<open>s.strip()\<close>\<close>
  "strip s = rev (dropWhile is_space (rev (dropWhile is_space s)))"

definition upper_letters :: string where
  "upper_letters = ''ABCDEFGHIJKLMNOPQRSTUVWXYZ''"

definition lower_letters :: string where
  "lower_letters = ''abcdefghijklmnopqrstuvwxyz''"

definition lower_char :: "char \<Rightarrow> char" where
  "lower_char c = (case map_of (zip upper_letters lower_letters) c of Some d \<Rightarrow> d | None \<Rightarrow> c)"

definition upper_char :: "char \<Rightarrow> char" where
  "upper_char c = (case map_of (zip lower_letters upper_letters) c of Some d \<Rightarrow> d | None \<Rightarrow> c)"

definition lower :: "string \<Rightarrow> string" where
  \<comment> \<open>\<open>s.lower()\<close> of a byte string\<close>
  "lower s = map lower_char s"

definition upper :: "string \<Rightarrow> string" where
  \<comment> \<open>\<open>s.upper()\<close> of a byte string\<close>
  "upper s = map upper_char s"

fun split :: "char \<Rightarrow> string \<Rightarrow> string list" where
  \<comment> \<open>\<open>s.split(d)\<close> for a one-character separator: every separator cuts, empty
      fields are kept, the empty string gives one empty field\<close>
  "split d [] = [] # []"
| "split d (c # cs) =
     (if c = d then [] # split d cs
      else (case split d cs of w # ws \<Rightarrow> (c # w) # ws | [] \<Rightarrow> [c] # []))"

fun join :: "string \<Rightarrow> string list \<Rightarrow> string" where
  \<comment> \<open>\<open>sep.join(xs)\<close>\<close>
  "join sep [] = []"
| "join sep [x] = x"
| "join sep (x # y # ys) = x @ sep @ join sep (y # ys)"

fun str_contains :: "string \<Rightarrow> string \<Rightarrow> bool" where
  \<comment> \<open>\<open>needle in hay\<close> for two strings: \<open>needle\<close> occurs in \<open>hay\<close> as a contiguous
      substring\<close>
  "str_contains [] needle = (needle = [])"
| "str_contains (h # hs) needle =
     (take (length needle) (h # hs) = needle \<or> str_contains hs needle)"

subsection \<open>The \<open>%\<close> operator of byte strings\<close>

text \<open>
  \<open>fmt % args\<close> where \<open>args\<close> is a tuple of \<open>str\<close> objects, after CPython 2.7's
  \<open>PyString_Format\<close>: a conversion is \<open>%\<close>, flags among \<open>-+ #0\<close>, a width, a
  precision after a dot, a length modifier \<open>h\<close>, \<open>l\<close> or \<open>L\<close>, and the conversion
  character. \<open>TypeError\<close> and \<open>ValueError\<close> are the exception classes it raises.
\<close>

datatype exc = TypeError | ValueError | W3afException

datatype fmt_state =
    Literal
  | Flags bool bool
  | Width bool int
  | Dot bool "int option"
  | Prec bool "int option" int
  | Conv bool "int option" "int option"

datatype fmt_action =
    Next fmt_state
  | Fail exc
  | Do_conv bool "int option" "int option" char

definition digits :: string where
  "digits = ''0123456789''"

definition is_digit :: "char \<Rightarrow> bool" where
  "is_digit c = (c \<in> set digits)"

definition digit_val :: "char \<Rightarrow> int" where
  "digit_val c = (case map_of (zip digits [0 .. 9]) c of Some n \<Rightarrow> n | None \<Rightarrow> 0)"

definition PY_SSIZE_T_MAX :: int where
  \<comment> \<open>on a 64-bit build\<close>
  "PY_SSIZE_T_MAX = 9223372036854775807"

definition INT_MAX :: int where
  "INT_MAX = 2147483647"

definition at_length :: "bool \<Rightarrow> int option \<Rightarrow> int option \<Rightarrow> char \<Rightarrow> fmt_action" where
  "at_length lj w p c = (if c \<in> set ''hlL'' then Next (Conv lj w p) else Do_conv lj w p c)"

definition at_dot :: "bool \<Rightarrow> int option \<Rightarrow> char \<Rightarrow> fmt_action" where
  "at_dot lj w c = (if c = CHR ''.'' then Next (Dot lj w) else at_length lj w None c)"

definition at_width :: "bool \<Rightarrow> char \<Rightarrow> fmt_action" where
  \<comment> \<open>\<open>*\<close> takes the width from the next argument, which must be an \<open>int\<close>: with
      \<open>str\<close> arguments (or none left) that is a \<open>TypeError\<close>\<close>
  "at_width lj c =
     (if c = CHR ''*'' then Fail TypeError
      else if is_digit c then Next (Width lj (digit_val c))
      else at_dot lj None c)"

definition at_flags :: "bool \<Rightarrow> bool \<Rightarrow> char \<Rightarrow> fmt_action" where
  \<comment> \<open>a mapping key \<open>%(name)\<close> with a tuple on the right: "format requires a mapping"\<close>
  "at_flags first lj c =
     (if first \<and> c = CHR ''('' then Fail TypeError
      else if c \<in> set ''-+ #0'' then Next (Flags False (lj \<or> c = CHR ''-''))
      else at_width lj c)"

fun fmt_step :: "fmt_state \<Rightarrow> char \<Rightarrow> fmt_action" where
  "fmt_step Literal c = (if c = CHR ''%'' then Next (Flags True False) else Next Literal)"
| "fmt_step (Flags first lj) c = at_flags first lj c"
| "fmt_step (Width lj w) c =
     (if is_digit c then
        (if w > (PY_SSIZE_T_MAX - digit_val c) div 10 then Fail ValueError
         else Next (Width lj (w * 10 + digit_val c)))
      else at_dot lj (Some w) c)"
| "fmt_step (Dot lj w) c =
     (if c = CHR ''*'' then Fail TypeError
      else if is_digit c then Next (Prec lj w (digit_val c))
      else at_length lj w (Some 0) c)"
| "fmt_step (Prec lj w p) c =
     (if is_digit c then
        (if p > (INT_MAX - digit_val c) div 10 then Fail ValueError
         else Next (Prec lj w (p * 10 + digit_val c)))
      else at_length lj w (Some p) c)"
| "fmt_step (Conv lj w p) c = Do_conv lj w p c"

definition pad :: "bool \<Rightarrow> int option \<Rightarrow> string \<Rightarrow> string" where
  "pad lj w s =
     (let n = (case w of None \<Rightarrow> 0 | Some k \<Rightarrow> nat k) - length s
      in if lj then s @ replicate n (CHR '' '') else replicate n (CHR '' '') @ s)"

definition clip :: "int option \<Rightarrow> string \<Rightarrow> string" where
  "clip p s = (case p of None \<Rightarrow> s | Some k \<Rightarrow> take (nat k) s)"

definition hex_digits :: string where
  "hex_digits = ''0123456789abcdef''"

definition repr_char :: "char \<Rightarrow> char \<Rightarrow> string" where
  "repr_char q c =
     (if c = q \<or> c = CHR 0x5C then [CHR 0x5C, c]
      else if c = CHR 0x09 then [CHR 0x5C, CHR ''t'']
      else if c = CHR 0x0A then [CHR 0x5C, CHR ''n'']
      else if c = CHR 0x0D then [CHR 0x5C, CHR ''r'']
      else if (of_char c :: nat) < 32 \<or> (of_char c :: nat) \<ge> 127 then
        [CHR 0x5C, CHR ''x'', hex_digits ! ((of_char c :: nat) div 16),
         hex_digits ! ((of_char c :: nat) mod 16)]
      else [c])"

definition py_repr :: "string \<Rightarrow> string" where
  \<comment> \<open>\<open>repr(s)\<close> of a byte string\<close>
  "py_repr s =
     (let q = (if CHR 0x27 \<in> set s \<and> CHR 0x22 \<notin> set s then CHR 0x22 else CHR 0x27)
      in q # concat (map (repr_char q) s) @ [q])"

definition convert ::
  "char \<Rightarrow> bool \<Rightarrow> int option \<Rightarrow> int option \<Rightarrow> string list \<Rightarrow> exc + (string \<times> string list)" where
  \<comment> \<open>one conversion; every conversion but \<open>%%\<close> takes the next argument first ("not
      enough arguments for format string" when none is left)\<close>
  "convert c lj w p args =
     (if c = CHR ''%'' then Inr (pad lj w ''%'', args)
      else (case args of
          [] \<Rightarrow> Inl TypeError
        | a # rest \<Rightarrow>
            if c = CHR ''s'' then Inr (pad lj w (clip p a), rest)
            else if c = CHR ''r'' then Inr (pad lj w (clip p (py_repr a)), rest)
            else if c = CHR ''c'' then
              (if length a = 1 then Inr (pad lj w a, rest) else Inl TypeError)
            else if c \<in> set ''diouxXeEfFgG'' then Inl TypeError
            else Inl ValueError))"

fun fmt_run :: "fmt_state \<Rightarrow> string \<Rightarrow> string list \<Rightarrow> exc + string" where
  "fmt_run Literal [] args = (if args = [] then Inr [] else Inl TypeError)"
| "fmt_run Literal (c # cs) args =
     (if c = CHR ''%'' then fmt_run (Flags True False) cs args
      else (case fmt_run Literal cs args of Inl e \<Rightarrow> Inl e | Inr r \<Rightarrow> Inr (c # r)))"
| "fmt_run st [] args = Inl ValueError"
| "fmt_run st (c # cs) args =
     (case fmt_step st c of
        Fail e \<Rightarrow> Inl e
      | Next st' \<Rightarrow> fmt_run st' cs args
      | Do_conv lj w p c' \<Rightarrow>
          (case convert c' lj w p args of
             Inl e \<Rightarrow> Inl e
           | Inr (piece, args') \<Rightarrow>
               (case fmt_run Literal cs args' of Inl e \<Rightarrow> Inl e | Inr r \<Rightarrow> Inr (piece @ r))))"

definition py_format :: "string \<Rightarrow> string list \<Rightarrow> exc + string" where
  "py_format fmt args = fmt_run Literal fmt args"

subsection \<open>Findings and the plugin's state\<close>

text \<open>
  Modelled from the spec: the severity constants of \<open>core.data.constants.severity\<close> and
  the class \<open>vuln\<close> of \<open>core.data.kb.vuln\<close>, which are not among the sources. The spec
  gives a finding a URL, a response id, a severity among INFORMATION, LOW, MEDIUM and HIGH,
  a name and a description; the fields are the ones the plugin sets with \<open>setURL\<close>,
  \<open>set_id\<close>, \<open>setSeverity\<close>, \<open>setName\<close> and \<open>setDesc\<close>.
\<close>

datatype severity = INFORMATION | LOW | MEDIUM | HIGH

record vuln =
  v_URL :: string
  v_id :: int
  v_severity :: severity
  v_name :: string
  v_desc :: string

text \<open>
  The instance attributes set by \<open>__init__\<close>, and with them the two global sinks the
  plugin writes to. Modelled from the spec: the knowledge base \<open>kb.kb\<close> and the output
  manager \<open>om.out\<close>, which are not among the sources; the spec has every record appended
  to the knowledge base and every message passed to the output sink, so \<open>kb\<close> holds the
  findings given to \<open>kb.kb.append(self, 'cors_origin', v)\<close> and \<open>om_out\<close> the messages
  given to \<open>om.out.vulnerability(msg)\<close>, both in the order of the calls.
\<close>

record cors_origin =
  origin_header_value :: "string option"
  reported_global :: "string set"
  universal_allow_counter :: int
  origin_echo_counter :: int
  universal_origin_allow_creds_counter :: int
  allow_methods_counter :: int
  kb :: "vuln list"
  om_out :: "string list"

definition MAX_REPEATED_REPORTS :: int where
  "MAX_REPEATED_REPORTS = 3"

definition SENSITIVE_METHODS :: "string list" where
  "SENSITIVE_METHODS = [''PUT'', ''DELETE'']"

definition COMMON_METHODS :: "string list" where
  "COMMON_METHODS = [''POST'', ''GET'', ''OPTIONS'', ''PUT'', ''DELETE'']"

definition init :: cors_origin where
  \<comment> \<open>\<open>__init__\<close>, with nothing written to the sinks yet\<close>
  "init = \<lparr> origin_header_value = Some ''http://w3af.sourceforge.net/'',
            reported_global = {},
            universal_allow_counter = 0,
            origin_echo_counter = 0,
            universal_origin_allow_creds_counter = 0,
            allow_methods_counter = 0,
            kb = [],
            om_out = [] \<rparr>"

text \<open>The four counter attributes that \<open>getattr\<close> and \<open>setattr\<close> are called with.\<close>

datatype counter_attr =
    Universal_allow_counter
  | Origin_echo_counter
  | Universal_origin_allow_creds_counter
  | Allow_methods_counter

fun getattr :: "cors_origin \<Rightarrow> counter_attr \<Rightarrow> int" where
  "getattr st Universal_allow_counter = universal_allow_counter st"
| "getattr st Origin_echo_counter = origin_echo_counter st"
| "getattr st Universal_origin_allow_creds_counter = universal_origin_allow_creds_counter st"
| "getattr st Allow_methods_counter = allow_methods_counter st"

fun setattr :: "cors_origin \<Rightarrow> counter_attr \<Rightarrow> int \<Rightarrow> cors_origin" where
  "setattr st Universal_allow_counter n = st\<lparr>universal_allow_counter := n\<rparr>"
| "setattr st Origin_echo_counter n = st\<lparr>origin_echo_counter := n\<rparr>"
| "setattr st Universal_origin_allow_creds_counter n =
     st\<lparr>universal_origin_allow_creds_counter := n\<rparr>"
| "setattr st Allow_methods_counter n = st\<lparr>allow_methods_counter := n\<rparr>"

definition kb_append :: "cors_origin \<Rightarrow> vuln \<Rightarrow> cors_origin" where
  \<comment> \<open>\<open>kb.kb.append(self, 'cors_origin', v)\<close>\<close>
  "kb_append st v = st\<lparr>kb := kb st @ [v]\<rparr>"

definition out_vulnerability :: "cors_origin \<Rightarrow> string \<Rightarrow> cors_origin" where
  \<comment> \<open>\<open>om.out.vulnerability(msg)\<close>\<close>
  "out_vulnerability st msg = st\<lparr>om_out := om_out st @ [msg]\<rparr>"

text \<open>
  Modelled from the spec: the three constants imported from \<open>core.controllers.cors.utils\<close>,
  which is not among the sources; the spec names the three headers.
\<close>

definition ACCESS_CONTROL_ALLOW_ORIGIN :: string where
  "ACCESS_CONTROL_ALLOW_ORIGIN = ''Access-Control-Allow-Origin''"

definition ACCESS_CONTROL_ALLOW_METHODS :: string where
  "ACCESS_CONTROL_ALLOW_METHODS = ''Access-Control-Allow-Methods''"

definition ACCESS_CONTROL_ALLOW_CREDENTIALS :: string where
  "ACCESS_CONTROL_ALLOW_CREDENTIALS = ''Access-Control-Allow-Credentials''"

subsection \<open>\<open>_filter_report\<close>\<close>

definition filter_report_msg :: string where
  "filter_report_msg =
     ''More than %s URLs in the Web application under analysis'' @
     '' returned a CORS response that triggered the %s'' @
     '' detection. Given that this seems to be an issue'' @
     '' that affects all of the site URLs, the scanner will'' @
     '' not report any other specific vulnerabilities of this'' @
     '' type.''"

definition filter_report_desc :: "string \<Rightarrow> string" where
  \<comment> \<open>\<open>msg % (self.MAX_REPEATED_REPORTS, section)\<close>, the integer printed as \<open>3\<close>\<close>
  "filter_report_desc section =
     ''More than '' @ ''3'' @ '' URLs in the Web application under analysis'' @
     '' returned a CORS response that triggered the '' @ section @
     '' detection. Given that this seems to be an issue'' @
     '' that affects all of the site URLs, the scanner will'' @
     '' not report any other specific vulnerabilities of this'' @
     '' type.''"

definition summary_vuln :: "string \<Rightarrow> severity \<Rightarrow> vuln \<Rightarrow> vuln" where
  "summary_vuln section vuln_severity first =
     \<lparr> v_URL = v_URL first, v_id = v_id first, v_severity = vuln_severity,
       v_name = ''Multiple CORS misconfigurations'',
       v_desc = filter_report_desc section \<rparr>"

definition filter_report ::
  "cors_origin \<Rightarrow> counter_attr \<Rightarrow> string \<Rightarrow> severity \<Rightarrow> vuln list \<Rightarrow> cors_origin \<times> vuln list" where
  "filter_report st counter section vuln_severity analysis_response =
     (case analysis_response of
        [] \<Rightarrow> (st, [])
      | first # _ \<Rightarrow>
          (let counter_val = getattr st counter in
           if counter_val \<le> MAX_REPEATED_REPORTS then
             (setattr st counter (counter_val + 1), analysis_response)
           else if section \<notin> reported_global st then
             (let st1 = st\<lparr>reported_global := insert section (reported_global st)\<rparr>;
                  v = summary_vuln section vuln_severity first;
                  st2 = kb_append st1 v;
                  st3 = out_vulnerability st2 filter_report_msg
              in (st3, [v]))
           else (st, [])))"

subsection \<open>The four analysis methods\<close>

text \<open>
  Each method takes \<open>self\<close> first and then the source's parameters: \<open>forged_req\<close> is
  represented by the string of \<open>forged_req.getURL()\<close>, \<open>url\<close> by its string,
  \<open>response\<close> by \<open>response.getId()\<close>; the three headers are \<open>None\<close> when absent.
\<close>

definition universal_allow_msg :: string where
  \<open>universal_allow_msg =
     ''The remote Web application, specifically "%s", returned'' @
     '' an %s header with the value set to "*" which is insecure'' @
     '' and leaves the application open to Cross-domain attacks.''\<close>

definition universal_allow_vuln :: "string \<Rightarrow> int \<Rightarrow> vuln" where
  \<open>universal_allow_vuln forged_req response =
     \<lparr> v_URL = forged_req, v_id = response, v_severity = LOW,
       v_name = ''Access-Control-Allow-Origin set to "*"'',
       v_desc =
         ''The remote Web application, specifically "'' @ forged_req @ ''", returned'' @
         '' an '' @ ACCESS_CONTROL_ALLOW_ORIGIN @
         '' header with the value set to "*" which is insecure'' @
         '' and leaves the application open to Cross-domain attacks.'' \<rparr>\<close>

definition universal_allow ::
  "cors_origin \<Rightarrow> string \<Rightarrow> string \<Rightarrow> string \<Rightarrow> int \<Rightarrow> string option \<Rightarrow> string option \<Rightarrow>
   string option \<Rightarrow> cors_origin \<times> vuln list" where
  "universal_allow st forged_req url origin response allow_origin allow_credentials
       allow_methods_str =
     (if allow_origin = Some ''*'' then
        (let v = universal_allow_vuln forged_req response;
             st1 = kb_append st v;
             st2 = out_vulnerability st1 universal_allow_msg
         in filter_report st2 Universal_allow_counter ''universal allow-origin'' MEDIUM [v])
      else (st, []))"

definition origin_echo_creds_desc :: "string \<Rightarrow> string" where
  \<open>origin_echo_creds_desc forged_req =
     ''The remote Web application, specifically "'' @ forged_req @ ''", returned'' @
     '' an '' @ ACCESS_CONTROL_ALLOW_ORIGIN @
     '' header with the value set to the value sent in the'' @
     '' request's Origin header and a '' @ ACCESS_CONTROL_ALLOW_CREDENTIALS @
     '' header with the value'' @
     '' set to "true", which is insecure and leaves the'' @
     '' application open to Cross-domain attacks which can'' @
     '' affect logged-in users.''\<close>

definition origin_echo_desc :: "string \<Rightarrow> string" where
  \<open>origin_echo_desc forged_req =
     ''The remote Web application, specifically "'' @ forged_req @ ''", returned'' @
     '' an '' @ ACCESS_CONTROL_ALLOW_ORIGIN @
     '' header with the value set to the value sent in the'' @
     '' request's Origin header, which is insecure and leaves'' @
     '' the application open to Cross-domain attacks.''\<close>

definition origin_echo_vuln :: "string \<Rightarrow> int \<Rightarrow> bool \<Rightarrow> vuln" where
  "origin_echo_vuln forged_req response allow_credentials =
     (if allow_credentials then
        \<lparr> v_URL = forged_req, v_id = response, v_severity = HIGH,
          v_name = ''Insecure Access-Control-Allow-Origin with credentials'',
          v_desc = origin_echo_creds_desc forged_req \<rparr>
      else
        \<lparr> v_URL = forged_req, v_id = response, v_severity = LOW,
          v_name = ''Insecure Access-Control-Allow-Origin'',
          v_desc = origin_echo_desc forged_req \<rparr>)"

definition credentials_allowed :: "string option \<Rightarrow> bool" where
  \<comment> \<open>\<open>allow_credentials = False; if allow_credentials_str is not None:
      allow_credentials = 'true' in allow_credentials_str.lower()\<close>\<close>
  "credentials_allowed allow_credentials_str =
     (case allow_credentials_str of
        None \<Rightarrow> False
      | Some s \<Rightarrow> str_contains (lower s) ''true'')"

definition origin_echo ::
  "cors_origin \<Rightarrow> string \<Rightarrow> string \<Rightarrow> string \<Rightarrow> int \<Rightarrow> string option \<Rightarrow> string option \<Rightarrow>
   string option \<Rightarrow> cors_origin \<times> vuln list" where
  "origin_echo st forged_req url origin response allow_origin allow_credentials_str
       allow_methods_str =
     (case allow_origin of
        None \<Rightarrow> (st, [])
      | Some ao \<Rightarrow>
          (let allow_origin' = lower ao;
               allow_credentials = credentials_allowed allow_credentials_str
           in if str_contains allow_origin' origin then
                (let v = origin_echo_vuln forged_req response allow_credentials;
                     st1 = kb_append st v;
                     st2 = out_vulnerability st1 (v_desc v)
                 in filter_report st2 Origin_echo_counter ''origin echoed in allow-origin''
                      HIGH [v])
              else (st, [])))"

definition universal_origin_allow_creds_msg :: string where
  \<open>universal_origin_allow_creds_msg =
     ''The remote Web application, specifically "%s", returned'' @
     '' an %s header with the value set to "*"  and an %s header'' @
     '' with the value set to "true" which according to Mozilla's'' @
     '' documentation is invalid. This implementation error might'' @
     '' affect the application behavior.''\<close>

definition universal_origin_allow_creds_vuln :: "string \<Rightarrow> int \<Rightarrow> vuln" where
  \<open>universal_origin_allow_creds_vuln forged_req response =
     \<lparr> v_URL = forged_req, v_id = response, v_severity = INFORMATION,
       v_name = ''Incorrect withCredentials implementation'',
       v_desc =
         ''The remote Web application, specifically "'' @ forged_req @ ''", returned'' @
         '' an '' @ ACCESS_CONTROL_ALLOW_ORIGIN @
         '' header with the value set to "*"  and an '' @
         ACCESS_CONTROL_ALLOW_CREDENTIALS @ '' header'' @
         '' with the value set to "true" which according to Mozilla's'' @
         '' documentation is invalid. This implementation error might'' @
         '' affect the application behavior.'' \<rparr>\<close>

definition universal_origin_allow_creds ::
  "cors_origin \<Rightarrow> string \<Rightarrow> string \<Rightarrow> string \<Rightarrow> int \<Rightarrow> string option \<Rightarrow> string option \<Rightarrow>
   string option \<Rightarrow> cors_origin \<times> vuln list" where
  "universal_origin_allow_creds st forged_req url origin response allow_origin
       allow_credentials_str allow_methods_str =
     (let allow_credentials = credentials_allowed allow_credentials_str
      in if allow_credentials \<and> allow_origin = Some ''*'' then
           (let v = universal_origin_allow_creds_vuln forged_req response;
                st1 = kb_append st v;
                st2 = out_vulnerability st1 universal_origin_allow_creds_msg
            in filter_report st2 Universal_origin_allow_creds_counter
                 ''withCredentials CORS implementation error'' INFORMATION [v])
         else (st, []))"

text \<open>
  A Python \<open>set\<close> of strings is a list without duplicates. The order in which a set
  yields its elements is that of its hash table and is not fixed by the language: it is
  the parameter \<open>slot\<close>, elements coming by increasing slot.
\<close>

definition pyset :: "string list \<Rightarrow> string list" where
  "pyset xs = remdups xs"

definition set_iter :: "(string \<Rightarrow> nat) \<Rightarrow> string list \<Rightarrow> string list" where
  "set_iter slot s = sort_key slot s"

definition allow_methods_msg :: "string \<Rightarrow> string \<Rightarrow> string" where
  \<comment> \<open>the first \<open>msg % (url, ACCESS_CONTROL_ALLOW_METHODS, allow_methods)\<close>\<close>
  \<open>allow_methods_msg url allow_methods_str =
     ''The remote Web application, specifically "'' @ url @ ''", returned'' @
     '' an '' @ ACCESS_CONTROL_ALLOW_METHODS @ '' header with the value set to "'' @
     allow_methods_str @ ''" which is insecure''\<close>

definition allow_methods_name_msg ::
  "(string \<Rightarrow> nat) \<Rightarrow> string \<Rightarrow> string list \<Rightarrow> string list \<Rightarrow> string \<times> (exc + string)" where
  \<comment> \<open>the \<open>if\<close>/\<open>elif\<close> chain that chooses \<open>name\<close> and formats \<open>msg\<close> a second time;
      it is entered with one of the two sets non-empty, so the last \<open>elif\<close> holds
      whenever it is reached\<close>
  "allow_methods_name_msg slot msg report_sensitive report_strange =
     (if report_sensitive \<noteq> [] \<and> report_strange \<noteq> [] then
        (''Sensitive and strange CORS methods enabled'',
         py_format (msg @ '' since it allows the following sensitive HTTP'' @
                          '' methods: %s and the following uncommon HTTP'' @
                          '' methods: %s.'')
           [join '', '' (set_iter slot report_sensitive),
            join '', '' (set_iter slot report_strange)])
      else if report_sensitive \<noteq> [] then
        (''Sensitive CORS methods enabled'',
         py_format (msg @ '' since it allows the following sensitive HTTP'' @
                          '' methods: %s.'')
           [join '', '' (set_iter slot report_sensitive)])
      else
        (''Uncommon CORS methods enabled'',
         py_format (msg @ '' since it allows the following uncommon HTTP'' @
                          '' methods: %s.'')
           [join '', '' (set_iter slot report_strange)]))"

definition allow_methods ::
  "(string \<Rightarrow> nat) \<Rightarrow> cors_origin \<Rightarrow> string \<Rightarrow> string \<Rightarrow> string \<Rightarrow> int \<Rightarrow> string option \<Rightarrow>
   string option \<Rightarrow> string option \<Rightarrow> (exc \<times> cors_origin) + (cors_origin \<times> vuln list)" where
  "allow_methods slot st forged_req url origin response allow_origin allow_credentials
       allow_methods_str =
     (case allow_methods_str of
        None \<Rightarrow> Inr (st, [])
      | Some am \<Rightarrow>
          (let allow_methods_list = split (CHR '','') am;
               allow_methods_list = map strip allow_methods_list;
               allow_methods_list = map upper allow_methods_list;
               allow_methods_set = pyset allow_methods_list;
               report_sensitive =
                 pyset (filter (\<lambda>m. m \<in> set allow_methods_set) SENSITIVE_METHODS);
               report_strange =
                 pyset (filter (\<lambda>m. m \<notin> set COMMON_METHODS)
                          (set_iter slot allow_methods_set))
           in if length report_sensitive > 0 \<or> length report_strange > 0 then
                (let msg = allow_methods_msg url am;
                     (name, formatted) =
                       allow_methods_name_msg slot msg report_sensitive report_strange
                 in case formatted of
                      Inl e \<Rightarrow> Inl (e, st)
                    | Inr msg' \<Rightarrow>
                        (let v = \<lparr> v_URL = forged_req, v_id = response, v_severity = LOW,
                                   v_name = name, v_desc = msg' \<rparr>;
                             st1 = kb_append st v;
                             st2 = out_vulnerability st1 msg'
                         in Inr (filter_report st2 Allow_methods_counter
                                   ''sensitive and uncommon methods'' LOW [v])))
              else Inr (st, [])))"

subsection \<open>\<open>_analyze_server_response\<close> and \<open>set_options\<close>\<close>

definition analyze_server_response ::
  "(string \<Rightarrow> nat) \<Rightarrow> cors_origin \<Rightarrow> string \<Rightarrow> string \<Rightarrow> string \<Rightarrow> int \<Rightarrow> string option \<Rightarrow>
   string option \<Rightarrow> string option \<Rightarrow> (exc \<times> cors_origin) + (cors_origin \<times> vuln list)" where
  "analyze_server_response slot st forged_req url origin response allow_origin
       allow_credentials allow_methods_str =
     (let (st1, r1) = universal_allow st forged_req url origin response allow_origin
                        allow_credentials allow_methods_str;
          (st2, r2) = origin_echo st1 forged_req url origin response allow_origin
                        allow_credentials allow_methods_str;
          (st3, r3) = universal_origin_allow_creds st2 forged_req url origin response
                        allow_origin allow_credentials allow_methods_str
      in case allow_methods slot st3 forged_req url origin response allow_origin
                allow_credentials allow_methods_str of
           Inl e \<Rightarrow> Inl e
         | Inr (st4, r4) \<Rightarrow> Inr (st4, r1 @ r2 @ r3 @ r4))"

definition set_options :: "cors_origin \<Rightarrow> string option \<Rightarrow> (exc \<times> cors_origin) + cors_origin" where
  \<comment> \<open>the argument is \<open>options_list['origin_header_value'].getValue()\<close>; the attribute
      is assigned before the check\<close>
  "set_options st v =
     (let st1 = st\<lparr>origin_header_value := v\<rparr>
      in case v of
           None \<Rightarrow> Inl (W3afException, st1)
         | Some s \<Rightarrow>
             if length (strip s) = 0 then Inl (W3afException, st1) else Inr st1)"

subsection \<open>Sequences of calls of the throttle\<close>

text \<open>
  The four call sites of \<open>_filter_report\<close>: each analysis method passes its own counter
  attribute, section name and severity. A rule kind stands for one call site.
\<close>

datatype rule_kind = Wildcard_allow | Origin_echo | Wildcard_credentials | Methods

fun kind_counter :: "rule_kind \<Rightarrow> counter_attr" where
  "kind_counter Wildcard_allow = Universal_allow_counter"
| "kind_counter Origin_echo = Origin_echo_counter"
| "kind_counter Wildcard_credentials = Universal_origin_allow_creds_counter"
| "kind_counter Methods = Allow_methods_counter"

fun kind_section :: "rule_kind \<Rightarrow> string" where
  "kind_section Wildcard_allow = ''universal allow-origin''"
| "kind_section Origin_echo = ''origin echoed in allow-origin''"
| "kind_section Wildcard_credentials = ''withCredentials CORS implementation error''"
| "kind_section Methods = ''sensitive and uncommon methods''"

fun kind_severity :: "rule_kind \<Rightarrow> severity" where
  "kind_severity Wildcard_allow = MEDIUM"
| "kind_severity Origin_echo = HIGH"
| "kind_severity Wildcard_credentials = INFORMATION"
| "kind_severity Methods = LOW"

definition throttle :: "cors_origin \<Rightarrow> rule_kind \<Rightarrow> vuln list \<Rightarrow> cors_origin \<times> vuln list" where
  "throttle st k raw_findings =
     filter_report st (kind_counter k) (kind_section k) (kind_severity k) raw_findings"

fun run_throttle ::
  "cors_origin \<Rightarrow> (rule_kind \<times> vuln list) list \<Rightarrow> cors_origin \<times> (rule_kind \<times> vuln list) list" where
  \<comment> \<open>the calls made one after the other on the same instance; each call is kept with
      what it returned\<close>
  "run_throttle st [] = (st, [])"
| "run_throttle st ((k, raw_findings) # calls) =
     (let (st1, returned) = throttle st k raw_findings;
          (st2, trace) = run_throttle st1 calls
      in (st2, (k, returned) # trace))"

definition is_summary :: "vuln \<Rightarrow> bool" where
  "is_summary v = (v_name v = ''Multiple CORS misconfigurations'')"

definition summaries_for :: "rule_kind \<Rightarrow> (rule_kind \<times> vuln list) list \<Rightarrow> vuln list" where
  \<comment> \<open>the summary findings among what the calls for one kind returned\<close>
  "summaries_for k trace =
     filter is_summary (concat (map snd (filter (\<lambda>c. fst c = k) trace)))"

definition closed :: "cors_origin \<Rightarrow> rule_kind \<Rightarrow> bool" where
  \<comment> \<open>the state in which \<open>_filter_report\<close> reaches its final \<open>return []\<close> for a kind\<close>
  "closed st k =
     (\<not> getattr st (kind_counter k) \<le> MAX_REPEATED_REPORTS \<and>
      kind_section k \<in> reported_global st)"

definition findings_for :: "rule_kind \<Rightarrow> (rule_kind \<times> vuln list) list \<Rightarrow> vuln list" where
  \<comment> \<open>everything the calls for one kind returned\<close>
  "findings_for k trace = concat (map snd (filter (\<lambda>c. fst c = k) trace))"

definition budget :: "cors_origin \<Rightarrow> rule_kind \<Rightarrow> nat" where
  \<comment> \<open>how many findings a kind can still get out of \<open>_filter_report\<close>, one per call:
      the individual reports left and the summary\<close>
  "budget st k =
     nat (MAX_REPEATED_REPORTS + 1 - getattr st (kind_counter k)) +
     (if kind_section k \<in> reported_global st then 0 else 1)"

text \<open>
  The sets that \<open>_allow_methods\<close> computes from the header, and the finding it builds,
  under names of their own.
\<close>

definition methods_set :: "string \<Rightarrow> string list" where
  \<comment> \<open>\<open>allow_methods_set\<close>\<close>
  "methods_set am = pyset (map upper (map strip (split (CHR '','') am)))"

definition sensitive_of :: "string \<Rightarrow> string list" where
  \<comment> \<open>\<open>report_sensitive\<close>\<close>
  "sensitive_of am = pyset (filter (\<lambda>m. m \<in> set (methods_set am)) SENSITIVE_METHODS)"

definition strange_of :: "(string \<Rightarrow> nat) \<Rightarrow> string \<Rightarrow> string list" where
  \<comment> \<open>\<open>report_strange\<close>\<close>
  "strange_of slot am =
     pyset (filter (\<lambda>m. m \<notin> set COMMON_METHODS) (set_iter slot (methods_set am)))"

definition allow_methods_vuln :: "string \<Rightarrow> int \<Rightarrow> string \<Rightarrow> string \<Rightarrow> vuln" where
  "allow_methods_vuln forged_req response name msg =
     \<lparr> v_URL = forged_req, v_id = response, v_severity = LOW, v_name = name, v_desc = msg \<rparr>"

section \<open>Properties\<close>

subsection \<open>Attributes and sinks\<close>

lemma getattr_setattr: "getattr (setattr st c n) c' = (if c' = c then n else getattr st c')"
  by (cases c; cases c') simp_all

lemma reported_setattr: "reported_global (setattr st c n) = reported_global st"
  by (cases c) simp_all

lemma kb_setattr: "kb (setattr st c n) = kb st"
  by (cases c) simp_all

lemma out_setattr: "om_out (setattr st c n) = om_out st"
  by (cases c) simp_all

lemma getattr_reported_upd: "getattr (st\<lparr>reported_global := X\<rparr>) c = getattr st c"
  by (cases c) simp_all

lemma getattr_kb_upd: "getattr (st\<lparr>kb := X\<rparr>) c = getattr st c"
  by (cases c) simp_all

lemma getattr_out_upd: "getattr (st\<lparr>om_out := X\<rparr>) c = getattr st c"
  by (cases c) simp_all

lemma kind_counter_inj: "(kind_counter k = kind_counter k') = (k = k')"
  by (cases k; cases k') simp_all

lemma kind_section_inj: "(kind_section k = kind_section k') = (k = k')"
  by (cases k; cases k') simp_all

lemmas st_simps =
  getattr_setattr reported_setattr kb_setattr out_setattr kind_counter_inj kind_section_inj
  getattr_kb_upd getattr_out_upd getattr_reported_upd kb_append_def out_vulnerability_def

subsection \<open>The branches of \<open>_filter_report\<close>\<close>

lemma filter_report_Nil: "filter_report st c s sev [] = (st, [])"
  by (simp add: filter_report_def)

lemma filter_report_individual:
  "raw \<noteq> [] \<Longrightarrow> getattr st c \<le> MAX_REPEATED_REPORTS \<Longrightarrow>
   filter_report st c s sev raw = (setattr st c (getattr st c + 1), raw)"
  by (cases raw) (simp_all add: filter_report_def)

lemma filter_report_summary:
  "raw \<noteq> [] \<Longrightarrow> \<not> getattr st c \<le> MAX_REPEATED_REPORTS \<Longrightarrow> s \<notin> reported_global st \<Longrightarrow>
   filter_report st c s sev raw =
     (out_vulnerability
        (kb_append (st\<lparr>reported_global := insert s (reported_global st)\<rparr>)
           (summary_vuln s sev (hd raw)))
        filter_report_msg,
      [summary_vuln s sev (hd raw)])"
  by (cases raw) (simp_all add: filter_report_def Let_def)

lemma filter_report_suppressed:
  "\<not> getattr st c \<le> MAX_REPEATED_REPORTS \<Longrightarrow> s \<in> reported_global st \<Longrightarrow>
   filter_report st c s sev raw = (st, [])"
  by (cases raw) (simp_all add: filter_report_def)

lemma throttle_cases:
  "(raw = [] \<and> throttle st k raw = (st, [])) \<or>
   (raw \<noteq> [] \<and> \<not> getattr st (kind_counter k) \<le> MAX_REPEATED_REPORTS \<and>
      kind_section k \<in> reported_global st \<and> throttle st k raw = (st, [])) \<or>
   (raw \<noteq> [] \<and> getattr st (kind_counter k) \<le> MAX_REPEATED_REPORTS \<and>
      throttle st k raw =
        (setattr st (kind_counter k) (getattr st (kind_counter k) + 1), raw)) \<or>
   (raw \<noteq> [] \<and> \<not> getattr st (kind_counter k) \<le> MAX_REPEATED_REPORTS \<and>
      kind_section k \<notin> reported_global st \<and>
      throttle st k raw =
        (out_vulnerability
           (kb_append (st\<lparr>reported_global := insert (kind_section k) (reported_global st)\<rparr>)
              (summary_vuln (kind_section k) (kind_severity k) (hd raw)))
           filter_report_msg,
         [summary_vuln (kind_section k) (kind_severity k) (hd raw)]))"
  unfolding throttle_def
  using filter_report_Nil filter_report_individual filter_report_summary
    filter_report_suppressed
  by metis

lemma is_summary_summary_vuln: "is_summary (summary_vuln s sev v)"
  by (simp add: is_summary_def summary_vuln_def)

subsection \<open>A kind that has been summarised stays silent\<close>

lemma throttle_closed: "closed st k \<Longrightarrow> throttle st k raw = (st, [])"
  by (simp add: closed_def throttle_def filter_report_suppressed)

lemma closed_preserved: "closed st k \<Longrightarrow> closed (fst (throttle st k' raw)) k"
  using throttle_cases[where st=st and k=k' and raw=raw]
  by (auto simp: closed_def st_simps split: if_splits)

lemma summary_closes:
  assumes "\<forall>v \<in> set raw. \<not> is_summary v"
    and "throttle st k raw = (st', out)"
    and "\<exists>v \<in> set out. is_summary v"
  shows "closed st' k \<and> out = [summary_vuln (kind_section k) (kind_severity k) (hd raw)]"
  using throttle_cases[where st=st and k=k and raw=raw] assms
  by (auto simp: closed_def st_simps split: if_splits)

lemma run_throttle_Cons:
  "throttle st k raw = (st1, out) \<Longrightarrow>
   run_throttle st ((k, raw) # calls) =
     (fst (run_throttle st1 calls), (k, out) # snd (run_throttle st1 calls))"
  by (simp split: prod.splits)

lemma run_closed:
  "closed st k \<Longrightarrow> (k', out) \<in> set (snd (run_throttle st calls)) \<Longrightarrow> k' = k \<Longrightarrow> out = []"
proof (induction calls arbitrary: st)
  case Nil
  then show ?case by simp
next
  case (Cons c calls)
  obtain k0 raw0 where c: "c = (k0, raw0)" by (cases c)
  obtain st1 out0 where t: "throttle st k0 raw0 = (st1, out0)"
    by (cases "throttle st k0 raw0")
  have cl: "closed st1 k"
    using closed_preserved[OF Cons.prems(1), of k0 raw0] t by simp
  from Cons.prems(2) have
    "(k', out) = (k0, out0) \<or> (k', out) \<in> set (snd (run_throttle st1 calls))"
    unfolding c run_throttle_Cons[OF t] by simp
  then show ?case
  proof
    assume "(k', out) = (k0, out0)"
    with throttle_closed[OF Cons.prems(1), of raw0] t Cons.prems(3) show ?thesis by simp
  next
    assume "(k', out) \<in> set (snd (run_throttle st1 calls))"
    from Cons.IH[OF cl this Cons.prems(3)] show ?thesis .
  qed
qed

lemma run_closed_no_summaries:
  assumes "closed st k"
  shows "summaries_for k (snd (run_throttle st calls)) = []"
proof -
  have "\<forall>c \<in> set (snd (run_throttle st calls)). fst c = k \<longrightarrow> snd c = []"
    using run_closed[OF assms] by auto
  then show ?thesis
    unfolding summaries_for_def
    by (induction "snd (run_throttle st calls)") (auto simp: filter_empty_conv)
qed

lemma summaries_count:
  assumes "\<forall>c \<in> set calls. \<forall>v \<in> set (snd c). \<not> is_summary v"
  shows "length (summaries_for k (snd (run_throttle st calls))) \<le> 1"
  using assms
proof (induction calls arbitrary: st)
  case Nil
  then show ?case by (simp add: summaries_for_def)
next
  case (Cons c calls)
  obtain k0 raw0 where c: "c = (k0, raw0)" by (cases c)
  obtain st1 out0 where t: "throttle st k0 raw0 = (st1, out0)"
    by (cases "throttle st k0 raw0")
  have raw0: "\<forall>v \<in> set raw0. \<not> is_summary v" using Cons.prems c by simp
  have rest: "\<forall>c \<in> set calls. \<forall>v \<in> set (snd c). \<not> is_summary v" using Cons.prems by simp
  have tr: "snd (run_throttle st (c # calls)) = (k0, out0) # snd (run_throttle st1 calls)"
    unfolding c run_throttle_Cons[OF t] by simp
  show ?case
  proof (cases "k0 = k \<and> (\<exists>v \<in> set out0. is_summary v)")
    case True
    then have "closed st1 k"
      and o: "out0 = [summary_vuln (kind_section k) (kind_severity k) (hd raw0)]"
      using summary_closes[OF raw0 t] by auto
    then have "summaries_for k (snd (run_throttle st1 calls)) = []"
      by (simp add: run_closed_no_summaries)
    then show ?thesis using True o unfolding tr
      by (simp add: summaries_for_def)
  next
    case False
    then have "summaries_for k ((k0, out0) # snd (run_throttle st1 calls)) =
               summaries_for k (snd (run_throttle st1 calls))"
      by (auto simp: summaries_for_def filter_empty_conv)
    then show ?thesis using Cons.IH[OF rest, of st1] unfolding tr by simp
  qed
qed

lemma after_summary_empty:
  assumes "\<forall>c \<in> set calls. \<forall>v \<in> set (snd c). \<not> is_summary v"
    and "snd (run_throttle st calls) = pre @ (k, out) # post"
    and "\<exists>v \<in> set out. is_summary v"
    and "(k, out') \<in> set post"
  shows "out' = []"
  using assms
proof (induction calls arbitrary: st pre)
  case Nil
  then show ?case by simp
next
  case (Cons c calls)
  obtain k0 raw0 where c: "c = (k0, raw0)" by (cases c)
  obtain st1 out0 where t: "throttle st k0 raw0 = (st1, out0)"
    by (cases "throttle st k0 raw0")
  have raw0: "\<forall>v \<in> set raw0. \<not> is_summary v" using Cons.prems(1) c by simp
  have rest: "\<forall>c \<in> set calls. \<forall>v \<in> set (snd c). \<not> is_summary v"
    using Cons.prems(1) by simp
  have tr: "snd (run_throttle st (c # calls)) = (k0, out0) # snd (run_throttle st1 calls)"
    unfolding c run_throttle_Cons[OF t] by simp
  show ?case
  proof (cases pre)
    case Nil
    with Cons.prems(2) tr have e: "k0 = k" "out0 = out" "post = snd (run_throttle st1 calls)"
      by simp_all
    have "closed st1 k" using summary_closes[OF raw0 t[unfolded e]] Cons.prems(3) by simp
    from run_closed[OF this, of k out' calls] Cons.prems(4) e show ?thesis by simp
  next
    case (Cons p pre')
    with Cons.prems(2) tr have "snd (run_throttle st1 calls) = pre' @ (k, out) # post"
      by simp
    from Cons.IH[OF rest this Cons.prems(3) Cons.prems(4)] show ?thesis .
  qed
qed

subsection \<open>How many findings a kind can get\<close>

lemma throttle_budget:
  assumes "length raw \<le> 1" and "throttle st k0 raw = (st1, out)"
  shows "(if k0 = k then length out else 0) + budget st1 k \<le> budget st k"
  using throttle_cases[where st=st and k=k0 and raw=raw] assms
  by (auto simp: budget_def st_simps MAX_REPEATED_REPORTS_def split: if_splits)

lemma session_total_bound_from:
  assumes "\<forall>c \<in> set calls. length (snd c) \<le> 1"
  shows "length (findings_for k (snd (run_throttle st calls))) \<le> budget st k"
  using assms
proof (induction calls arbitrary: st)
  case Nil
  then show ?case by (simp add: findings_for_def)
next
  case (Cons c calls)
  obtain k0 raw0 where c: "c = (k0, raw0)" by (cases c)
  obtain st1 out0 where t: "throttle st k0 raw0 = (st1, out0)"
    by (cases "throttle st k0 raw0")
  have l: "length raw0 \<le> 1" using Cons.prems c by simp
  have rest: "\<forall>c \<in> set calls. length (snd c) \<le> 1" using Cons.prems by simp
  have tr: "snd (run_throttle st (c # calls)) = (k0, out0) # snd (run_throttle st1 calls)"
    unfolding c run_throttle_Cons[OF t] by simp
  have "length (findings_for k ((k0, out0) # snd (run_throttle st1 calls))) =
        (if k0 = k then length out0 else 0) +
        length (findings_for k (snd (run_throttle st1 calls)))"
    by (simp add: findings_for_def)
  also have "\<dots> \<le> (if k0 = k then length out0 else 0) + budget st1 k"
    using Cons.IH[OF rest, of st1] by simp
  also have "\<dots> \<le> budget st k" using throttle_budget[OF l t] .
  finally show ?case unfolding tr .
qed

text \<open>
  With one raw finding per call, as the analysis methods call it, a fresh instance returns
  at most five findings for a kind: four individual ones and the summary.
\<close>

lemma session_total_bound:
  assumes "\<forall>c \<in> set calls. length (snd c) \<le> 1"
  shows "length (findings_for k (snd (run_throttle init calls))) \<le> 5"
proof -
  have "budget init k = 5"
    by (cases k) (simp_all add: budget_def init_def MAX_REPEATED_REPORTS_def)
  with session_total_bound_from[OF assms, of k init] show ?thesis by simp
qed

subsection \<open>The throttle over a scan session\<close>

text \<open>
  C1. Starting from a fresh instance, calls for one rule kind with one raw finding each:
  the claim expects the individual finding from the first three calls and the summary
  from the fourth. The code compares the counter before it increments it
  (\<open>counter_val <= MAX_REPEATED_REPORTS\<close> with the counter at 0, 1, 2 and 3), so the
  first four calls return the individual finding, the fifth returns the summary and the
  sixth returns the empty list.
\<close>

theorem fourth_call_individual:
  "snd (run_throttle init
          [(k, [f1]), (k, [f2]), (k, [f3]), (k, [f4]), (k, [f5]), (k, [f6])]) =
     [(k, [f1]), (k, [f2]), (k, [f3]), (k, [f4]),
      (k, [summary_vuln (kind_section k) (kind_severity k) f5]), (k, [])]"
  by (cases k)
     (simp_all add: throttle_def filter_report_def init_def MAX_REPEATED_REPORTS_def
        kb_append_def out_vulnerability_def Let_def)

text \<open>
  C2. The claim bounds the findings returned for one kind by \<open>threshold + 1 = 4\<close>. Five
  calls of a fresh instance, each with one raw finding, return five findings: four
  individual ones and the summary.
\<close>

theorem five_findings:
  "length (concat (map snd (snd (run_throttle init
      [(k, [f1]), (k, [f2]), (k, [f3]), (k, [f4]), (k, [f5])])))) = 5"
  by (cases k)
     (simp_all add: throttle_def filter_report_def init_def MAX_REPEATED_REPORTS_def
        kb_append_def out_vulnerability_def Let_def)

text \<open>
  C3. For every sequence of throttle calls, from any state, and every rule kind: the
  calls for that kind return at most one summary finding in all, and once a call for the
  kind has returned a summary, every later call for the kind returns the empty list. A
  summary is recognised by its name; the raw findings handed to the throttle do not carry
  that name (none of the four analysis methods builds one that does).
\<close>

theorem summary_once_then_silence:
  assumes "\<forall>c \<in> set calls. \<forall>v \<in> set (snd c). \<not> is_summary v"
  shows "length (summaries_for k (snd (run_throttle st calls))) \<le> 1 \<and>
         (\<forall>pre out post out'.
            snd (run_throttle st calls) = pre @ (k, out) # post \<and>
            (\<exists>v \<in> set out. is_summary v) \<and> (k, out') \<in> set post \<longrightarrow> out' = [])"
  using summaries_count[OF assms] after_summary_empty[OF assms] by blast

theorem summary_once_then_silence_witness:
  "list_all (\<lambda>c. list_all (\<lambda>v. \<not> is_summary v) (snd c))
     (replicate 7 (Wildcard_allow, [universal_allow_vuln ''http://x.test/a'' 1])) \<and>
   snd (run_throttle init
          (replicate 7 (Wildcard_allow, [universal_allow_vuln ''http://x.test/a'' 1]))) =
     replicate 4 (Wildcard_allow, [universal_allow_vuln ''http://x.test/a'' 1]) @
     (Wildcard_allow,
      [summary_vuln ''universal allow-origin'' MEDIUM
         (universal_allow_vuln ''http://x.test/a'' 1)]) #
     replicate 2 (Wildcard_allow, []) \<and>
   length (summaries_for Wildcard_allow
     (snd (run_throttle init
        (replicate 7 (Wildcard_allow, [universal_allow_vuln ''http://x.test/a'' 1]))))) = 1"
  using summary_once_then_silence
    [of "replicate 7 (Wildcard_allow, [universal_allow_vuln ''http://x.test/a'' 1])"
        Wildcard_allow init]
  by (simp add: numeral_eq_Suc throttle_def filter_report_def init_def
        MAX_REPEATED_REPORTS_def kb_append_def out_vulnerability_def Let_def
        summaries_for_def is_summary_def summary_vuln_def universal_allow_vuln_def)

text \<open>
  C9, as the code has it. A call with a non-empty list increments the counter of its
  kind by one exactly when it returns the list unchanged; a call that returns the summary
  or the empty list leaves the counter as it was. A call with the empty list changes
  nothing. As in C3, the raw findings do not carry the summary's name.
\<close>

theorem counter_follows_report:
  assumes "\<forall>v \<in> set raw. \<not> is_summary v"
  shows "getattr (fst (throttle st k raw)) (kind_counter k) =
           (if raw \<noteq> [] \<and> snd (throttle st k raw) = raw
            then getattr st (kind_counter k) + 1 else getattr st (kind_counter k)) \<and>
         throttle st k [] = (st, [])"
proof -
  have e: "throttle st k [] = (st, [])"
    by (simp add: throttle_def filter_report_Nil)
  have n: "raw \<noteq> [] \<Longrightarrow> [summary_vuln (kind_section k) (kind_severity k) (hd raw)] \<noteq> raw"
  proof
    assume r: "raw \<noteq> []"
      and "[summary_vuln (kind_section k) (kind_severity k) (hd raw)] = raw"
    then have "summary_vuln (kind_section k) (kind_severity k) (hd raw) \<in> set raw"
      by (metis list.set_intros(1))
    with assms is_summary_summary_vuln show False by blast
  qed
  show ?thesis
    using throttle_cases[where st=st and k=k and raw=raw] e n
    by (auto simp: st_simps)
qed

theorem counter_follows_report_witness:
  "list_all (\<lambda>v. \<not> is_summary v) [universal_allow_vuln ''http://x.test/a'' 1] \<and>
   throttle init Wildcard_allow [universal_allow_vuln ''http://x.test/a'' 1] =
     (init\<lparr>universal_allow_counter := 1\<rparr>, [universal_allow_vuln ''http://x.test/a'' 1]) \<and>
   snd (throttle
          (fst (run_throttle init
             (replicate 5 (Wildcard_allow, [universal_allow_vuln ''http://x.test/a'' 1]))))
          Wildcard_allow [universal_allow_vuln ''http://x.test/b'' 2]) = [] \<and>
   getattr
     (fst (throttle
          (fst (run_throttle init
             (replicate 5 (Wildcard_allow, [universal_allow_vuln ''http://x.test/a'' 1]))))
          Wildcard_allow [universal_allow_vuln ''http://x.test/b'' 2]))
     Universal_allow_counter =
   getattr
     (fst (run_throttle init
        (replicate 5 (Wildcard_allow, [universal_allow_vuln ''http://x.test/a'' 1]))))
     Universal_allow_counter"
  using counter_follows_report
      [of "[universal_allow_vuln ''http://x.test/a'' 1]" init Wildcard_allow]
    counter_follows_report
      [of "[universal_allow_vuln ''http://x.test/b'' 2]"
          "fst (run_throttle init
             (replicate 5 (Wildcard_allow, [universal_allow_vuln ''http://x.test/a'' 1])))"
          Wildcard_allow]
  by (simp add: numeral_eq_Suc throttle_def filter_report_def init_def
        MAX_REPEATED_REPORTS_def kb_append_def out_vulnerability_def Let_def
        is_summary_def universal_allow_vuln_def)

text \<open>
  C9 as stated fails: on a fresh instance the fifth call with a finding, which returns the
  summary, leaves the counter where the fourth call left it.
\<close>

theorem counter_not_incremented:
  "getattr (fst (run_throttle init
      (replicate 4 (Wildcard_allow, [universal_allow_vuln ''http://x.test/a'' 1]))))
      Universal_allow_counter = 4 \<and>
   getattr (fst (run_throttle init
      (replicate 5 (Wildcard_allow, [universal_allow_vuln ''http://x.test/a'' 1]))))
      Universal_allow_counter = 4"
  by (simp add: numeral_eq_Suc throttle_def filter_report_def init_def
        MAX_REPEATED_REPORTS_def kb_append_def out_vulnerability_def Let_def)

subsection \<open>Substrings and whitespace\<close>

lemma str_contains_iff: "str_contains hay needle \<longleftrightarrow> (\<exists>p s. hay = p @ needle @ s)"
proof (induction hay)
  case Nil
  then show ?case by auto
next
  case (Cons h hs)
  show ?case
  proof
    assume "str_contains (h # hs) needle"
    then consider "take (length needle) (h # hs) = needle" | "str_contains hs needle" by auto
    then show "\<exists>p s. h # hs = p @ needle @ s"
    proof cases
      case 1
      then have "h # hs = [] @ needle @ drop (length needle) (h # hs)"
        by (metis append_Nil append_take_drop_id)
      then show ?thesis by blast
    next
      case 2
      then obtain p s where "hs = p @ needle @ s" using Cons.IH by blast
      then have "h # hs = (h # p) @ needle @ s" by simp
      then show ?thesis by blast
    qed
  next
    assume "\<exists>p s. h # hs = p @ needle @ s"
    then obtain p s where e: "h # hs = p @ needle @ s" by blast
    show "str_contains (h # hs) needle"
    proof (cases p)
      case Nil
      with e have "take (length needle) (h # hs) = needle" by simp
      then show ?thesis by simp
    next
      case (Cons a p')
      with e have "hs = p' @ needle @ s" by simp
      then have "str_contains hs needle" using Cons.IH by blast
      then show ?thesis by simp
    qed
  qed
qed

lemma contained_in_star: "str_contains ''*'' origin \<longleftrightarrow> origin = [] \<or> origin = ''*''"
  by (cases origin) auto

lemma strip_empty_iff: "strip s = [] \<longleftrightarrow> (\<forall>c \<in> set s. is_space c)"
proof
  assume "strip s = []"
  then have a: "\<forall>c \<in> set (dropWhile is_space s). is_space c"
    by (simp add: strip_def)
  have "dropWhile is_space s = []"
  proof (rule ccontr)
    assume n: "dropWhile is_space s \<noteq> []"
    then have "\<not> is_space (hd (dropWhile is_space s))" by (rule hd_dropWhile)
    moreover have "hd (dropWhile is_space s) \<in> set (dropWhile is_space s)" using n by simp
    ultimately show False using a by blast
  qed
  then show "\<forall>c \<in> set s. is_space c" by simp
next
  assume "\<forall>c \<in> set s. is_space c"
  then have "dropWhile is_space s = []" by simp
  then show "strip s = []" by (simp add: strip_def del: dropWhile_eq_Nil_conv)
qed

lemma credentials_allowed_iff:
  "credentials_allowed allow_credentials_str \<longleftrightarrow>
     (\<exists>c p s. allow_credentials_str = Some c \<and> lower c = p @ ''true'' @ s)"
  by (cases allow_credentials_str) (simp_all add: credentials_allowed_def str_contains_iff)

subsection \<open>Formatting\<close>

text \<open>
  The descriptions that the source formats once, from a constant format, are written as
  concatenations in the model; they are what \<open>py_format\<close> gives.
\<close>

lemmas fmt_simps =
  py_format_def at_flags_def at_width_def at_dot_def at_length_def is_digit_def digits_def
  digit_val_def PY_SSIZE_T_MAX_def INT_MAX_def convert_def pad_def clip_def

lemma fmt_run_plain_prefix:
  "CHR ''%'' \<notin> set pre \<Longrightarrow>
   fmt_run Literal (pre @ rest) args =
     (case fmt_run Literal rest args of Inl e \<Rightarrow> Inl e | Inr r \<Rightarrow> Inr (pre @ r))"
  by (induction pre) (auto split: sum.splits)

lemma filter_report_desc_format:
  "py_format filter_report_msg [''3'', section] = Inr (filter_report_desc section)"
  by (simp add: filter_report_msg_def filter_report_desc_def fmt_simps)

lemma universal_allow_desc_format:
  "py_format universal_allow_msg [forged_req, ACCESS_CONTROL_ALLOW_ORIGIN] =
   Inr (v_desc (universal_allow_vuln forged_req response))"
  by (simp add: universal_allow_msg_def universal_allow_vuln_def fmt_simps)

lemma origin_echo_creds_desc_format:
  \<open>py_format
     (''The remote Web application, specifically "%s", returned'' @
      '' an %s header with the value set to the value sent in the'' @
      '' request's Origin header and a %s header with the value'' @
      '' set to "true", which is insecure and leaves the'' @
      '' application open to Cross-domain attacks which can'' @
      '' affect logged-in users.'')
     [forged_req, ACCESS_CONTROL_ALLOW_ORIGIN, ACCESS_CONTROL_ALLOW_CREDENTIALS] =
   Inr (origin_echo_creds_desc forged_req)\<close>
  by (simp add: origin_echo_creds_desc_def fmt_simps)

lemma origin_echo_desc_format:
  \<open>py_format
     (''The remote Web application, specifically "%s", returned'' @
      '' an %s header with the value set to the value sent in the'' @
      '' request's Origin header, which is insecure and leaves'' @
      '' the application open to Cross-domain attacks.'')
     [forged_req, ACCESS_CONTROL_ALLOW_ORIGIN] =
   Inr (origin_echo_desc forged_req)\<close>
  by (simp add: origin_echo_desc_def fmt_simps)

lemma universal_origin_allow_creds_desc_format:
  "py_format universal_origin_allow_creds_msg
     [forged_req, ACCESS_CONTROL_ALLOW_ORIGIN, ACCESS_CONTROL_ALLOW_CREDENTIALS] =
   Inr (v_desc (universal_origin_allow_creds_vuln forged_req response))"
  by (simp add: universal_origin_allow_creds_msg_def universal_origin_allow_creds_vuln_def
        fmt_simps)

lemma allow_methods_msg_format:
  \<open>py_format
     (''The remote Web application, specifically "%s", returned'' @
      '' an %s header with the value set to "%s" which is insecure'')
     [url, ACCESS_CONTROL_ALLOW_METHODS, allow_methods_str] =
   Inr (allow_methods_msg url allow_methods_str)\<close>
  by (simp add: allow_methods_msg_def fmt_simps)

subsection \<open>An analysis method that fires\<close>

lemma filter_report_single:
  assumes "\<not> is_summary v"
  shows "case filter_report st c s sev [v] of (st', res) \<Rightarrow>
           kb st' = kb st @ filter is_summary res \<and>
           om_out st' = om_out st @ map (\<lambda>x. filter_report_msg) (filter is_summary res) \<and>
           (getattr st c \<le> MAX_REPEATED_REPORTS \<longrightarrow> res = [v]) \<and>
           (\<forall>x \<in> set res. is_summary x \<longrightarrow> x = summary_vuln s sev v) \<and>
           (res = [] \<longleftrightarrow> \<not> getattr st c \<le> MAX_REPEATED_REPORTS \<and> s \<in> reported_global st)"
  using assms
  by (auto simp: filter_report_def Let_def st_simps is_summary_summary_vuln)

lemma recorded_then_filtered:
  assumes "\<not> is_summary v"
  shows "case filter_report (out_vulnerability (kb_append st v) m) c s sev [v] of
           (st', res) \<Rightarrow>
             kb st' = kb st @ v # filter is_summary res \<and>
             om_out st' = om_out st @ m # map (\<lambda>x. filter_report_msg) (filter is_summary res) \<and>
             (getattr st c \<le> MAX_REPEATED_REPORTS \<longrightarrow> res = [v]) \<and>
             (\<forall>x \<in> set res. is_summary x \<longrightarrow> x = summary_vuln s sev v) \<and>
             (res = [] \<longleftrightarrow> \<not> getattr st c \<le> MAX_REPEATED_REPORTS \<and> s \<in> reported_global st)"
  using filter_report_single[OF assms, of "out_vulnerability (kb_append st v) m" c s sev]
  by (auto simp: st_simps split: prod.splits)

lemma universal_allow_vuln_not_summary: "\<not> is_summary (universal_allow_vuln fr rid)"
  by (simp add: is_summary_def universal_allow_vuln_def)

lemma origin_echo_vuln_not_summary: "\<not> is_summary (origin_echo_vuln fr rid b)"
  by (simp add: is_summary_def origin_echo_vuln_def)

lemma universal_origin_allow_creds_vuln_not_summary:
  "\<not> is_summary (universal_origin_allow_creds_vuln fr rid)"
  by (simp add: is_summary_def universal_origin_allow_creds_vuln_def)

lemma universal_allow_fires:
  "universal_allow st forged_req url origin response (Some ''*'') allow_credentials
     allow_methods_str =
   filter_report
     (out_vulnerability (kb_append st (universal_allow_vuln forged_req response))
        universal_allow_msg)
     Universal_allow_counter ''universal allow-origin'' MEDIUM
     [universal_allow_vuln forged_req response]"
  by (simp add: universal_allow_def Let_def)

lemma origin_echo_fires:
  "str_contains (lower ao) origin \<Longrightarrow>
   origin_echo st forged_req url origin response (Some ao) allow_credentials_str
     allow_methods_str =
   filter_report
     (out_vulnerability
        (kb_append st
           (origin_echo_vuln forged_req response (credentials_allowed allow_credentials_str)))
        (v_desc (origin_echo_vuln forged_req response
                   (credentials_allowed allow_credentials_str))))
     Origin_echo_counter ''origin echoed in allow-origin'' HIGH
     [origin_echo_vuln forged_req response (credentials_allowed allow_credentials_str)]"
  by (simp add: origin_echo_def Let_def)

lemma origin_echo_silent:
  "\<not> (\<exists>ao. allow_origin = Some ao \<and> str_contains (lower ao) origin) \<Longrightarrow>
   origin_echo st forged_req url origin response allow_origin allow_credentials_str
     allow_methods_str = (st, [])"
  by (cases allow_origin) (simp_all add: origin_echo_def Let_def)

lemma universal_origin_allow_creds_fires:
  "credentials_allowed allow_credentials_str \<Longrightarrow>
   universal_origin_allow_creds st forged_req url origin response (Some ''*'')
     allow_credentials_str allow_methods_str =
   filter_report
     (out_vulnerability
        (kb_append st (universal_origin_allow_creds_vuln forged_req response))
        universal_origin_allow_creds_msg)
     Universal_origin_allow_creds_counter ''withCredentials CORS implementation error''
     INFORMATION [universal_origin_allow_creds_vuln forged_req response]"
  by (simp add: universal_origin_allow_creds_def Let_def)

lemma universal_origin_allow_creds_silent:
  "\<not> (credentials_allowed allow_credentials_str \<and> allow_origin = Some ''*'') \<Longrightarrow>
   universal_origin_allow_creds st forged_req url origin response allow_origin
     allow_credentials_str allow_methods_str = (st, [])"
  by (auto simp: universal_origin_allow_creds_def Let_def)

lemma allow_methods_unfold:
  "allow_methods slot st forged_req url origin response allow_origin allow_credentials
     (Some am) =
   (if sensitive_of am \<noteq> [] \<or> strange_of slot am \<noteq> [] then
      (case snd (allow_methods_name_msg slot (allow_methods_msg url am) (sensitive_of am)
                   (strange_of slot am)) of
         Inl e \<Rightarrow> Inl (e, st)
       | Inr msg' \<Rightarrow>
           Inr (filter_report
             (out_vulnerability
                (kb_append st
                   (allow_methods_vuln forged_req response
                      (fst (allow_methods_name_msg slot (allow_methods_msg url am)
                              (sensitive_of am) (strange_of slot am)))
                      msg'))
                msg')
             Allow_methods_counter ''sensitive and uncommon methods'' LOW
             [allow_methods_vuln forged_req response
                (fst (allow_methods_name_msg slot (allow_methods_msg url am)
                        (sensitive_of am) (strange_of slot am)))
                msg']))
    else Inr (st, []))"
  unfolding allow_methods_def methods_set_def sensitive_of_def strange_of_def
    allow_methods_vuln_def
  by (simp only: Let_def case_prod_beta option.case length_greater_0_conv)

lemma allow_methods_records:
  assumes "sensitive_of am \<noteq> [] \<or> strange_of slot am \<noteq> []"
    and "snd (allow_methods_name_msg slot (allow_methods_msg url am) (sensitive_of am)
                (strange_of slot am)) = Inr msg'"
  shows "allow_methods slot st forged_req url origin response allow_origin allow_credentials
           (Some am) =
         Inr (filter_report
           (out_vulnerability
              (kb_append st
                 (allow_methods_vuln forged_req response
                    (fst (allow_methods_name_msg slot (allow_methods_msg url am)
                            (sensitive_of am) (strange_of slot am)))
                    msg'))
              msg')
           Allow_methods_counter ''sensitive and uncommon methods'' LOW
           [allow_methods_vuln forged_req response
              (fst (allow_methods_name_msg slot (allow_methods_msg url am)
                      (sensitive_of am) (strange_of slot am)))
              msg'])"
  unfolding allow_methods_unfold using assms by simp

lemma allow_methods_raises:
  assumes "sensitive_of am \<noteq> [] \<or> strange_of slot am \<noteq> []"
    and "snd (allow_methods_name_msg slot (allow_methods_msg url am) (sensitive_of am)
                (strange_of slot am)) = Inl e"
  shows "allow_methods slot st forged_req url origin response allow_origin allow_credentials
           (Some am) = Inl (e, st)"
  unfolding allow_methods_unfold using assms by simp

lemma allow_methods_silent:
  "allow_methods_str = None \<or>
   (\<exists>am. allow_methods_str = Some am \<and> sensitive_of am = [] \<and> strange_of slot am = []) \<Longrightarrow>
   allow_methods slot st forged_req url origin response allow_origin allow_credentials
     allow_methods_str = Inr (st, [])"
  by (auto simp: allow_methods_unfold) (simp add: allow_methods_def)

lemma allow_methods_vuln_not_summary:
  "\<not> is_summary
        (allow_methods_vuln forged_req response
           (fst (allow_methods_name_msg slot msg rs rt)) msg')"
  by (simp add: is_summary_def allow_methods_vuln_def allow_methods_name_msg_def)

lemmas eval_simps =
  throttle_def filter_report_def init_def MAX_REPEATED_REPORTS_def kb_append_def
  out_vulnerability_def Let_def lower_def lower_char_def upper_def upper_char_def
  upper_letters_def lower_letters_def credentials_allowed_def

lemmas methods_simps =
  allow_methods_def Let_def strip_def is_space_def upper_def upper_char_def
  upper_letters_def lower_letters_def pyset_def set_iter_def SENSITIVE_METHODS_def
  COMMON_METHODS_def allow_methods_name_msg_def

subsection \<open>The rules\<close>

text \<open>
  C4. \<open>_origin_echo\<close> fires exactly when \<open>allow_origin\<close> is present and its lower-cased
  value contains the origin as a substring; otherwise it returns the empty list and
  changes nothing. When it fires, its finding is the next entry of the knowledge base and
  is what the method returns while the counter is within the limit. The finding has
  severity HIGH and the name with credentials exactly when \<open>allow_credentials\<close> is present
  and its lower-cased value contains \<open>true\<close>; otherwise severity LOW and the plain name.
\<close>

theorem origin_echo_rule:
  "(\<not> (\<exists>ao p s. allow_origin = Some ao \<and> lower ao = p @ origin @ s) \<longrightarrow>
      origin_echo st forged_req url origin response allow_origin allow_credentials_str
        allow_methods_str = (st, [])) \<and>
   ((\<exists>ao p s. allow_origin = Some ao \<and> lower ao = p @ origin @ s) \<longrightarrow>
      (case origin_echo st forged_req url origin response allow_origin allow_credentials_str
              allow_methods_str of
         (st', res) \<Rightarrow>
           kb st' =
             kb st @
             origin_echo_vuln forged_req response (credentials_allowed allow_credentials_str) #
             filter is_summary res \<and>
           (getattr st Origin_echo_counter \<le> MAX_REPEATED_REPORTS \<longrightarrow>
              res = [origin_echo_vuln forged_req response
                       (credentials_allowed allow_credentials_str)]))) \<and>
   (credentials_allowed allow_credentials_str \<longleftrightarrow>
      (\<exists>c p s. allow_credentials_str = Some c \<and> lower c = p @ ''true'' @ s)) \<and>
   v_severity (origin_echo_vuln forged_req response b) = (if b then HIGH else LOW) \<and>
   v_name (origin_echo_vuln forged_req response b) =
     (if b then ''Insecure Access-Control-Allow-Origin with credentials''
      else ''Insecure Access-Control-Allow-Origin'')"
proof -
  let ?fires = "\<exists>ao p s. allow_origin = Some ao \<and> lower ao = p @ origin @ s"
  let ?v = "origin_echo_vuln forged_req response (credentials_allowed allow_credentials_str)"
  have f: "?fires \<longleftrightarrow> (\<exists>ao. allow_origin = Some ao \<and> str_contains (lower ao) origin)"
    by (auto simp: str_contains_iff)
  have a: "\<not> ?fires \<longrightarrow>
      origin_echo st forged_req url origin response allow_origin allow_credentials_str
        allow_methods_str = (st, [])"
    unfolding f using origin_echo_silent by blast
  have b: "?fires \<longrightarrow>
      (case origin_echo st forged_req url origin response allow_origin allow_credentials_str
              allow_methods_str of
         (st', res) \<Rightarrow>
           kb st' = kb st @ ?v # filter is_summary res \<and>
           (getattr st Origin_echo_counter \<le> MAX_REPEATED_REPORTS \<longrightarrow> res = [?v]))"
  proof
    assume ?fires
    then obtain ao where ao: "allow_origin = Some ao" "str_contains (lower ao) origin"
      unfolding f by blast
    show "case origin_echo st forged_req url origin response allow_origin
                 allow_credentials_str allow_methods_str of
            (st', res) \<Rightarrow>
              kb st' = kb st @ ?v # filter is_summary res \<and>
              (getattr st Origin_echo_counter \<le> MAX_REPEATED_REPORTS \<longrightarrow> res = [?v])"
      unfolding ao(1) origin_echo_fires[OF ao(2)]
      using recorded_then_filtered[OF origin_echo_vuln_not_summary,
          of st forged_req response "credentials_allowed allow_credentials_str" "v_desc ?v"
             Origin_echo_counter "''origin echoed in allow-origin''" HIGH]
      by (auto split: prod.splits)
  qed
  have c: "v_severity (origin_echo_vuln forged_req response b) = (if b then HIGH else LOW) \<and>
     v_name (origin_echo_vuln forged_req response b) =
       (if b then ''Insecure Access-Control-Allow-Origin with credentials''
        else ''Insecure Access-Control-Allow-Origin'')"
    by (simp add: origin_echo_vuln_def)
  from a b c credentials_allowed_iff show ?thesis by blast
qed

theorem origin_echo_rule_witness:
  "origin_echo init ''http://x.test/a'' ''http://x.test/a'' ''http://evil.test'' 1
     (Some ''http://evil.test'') (Some ''true'') None =
   (init\<lparr>origin_echo_counter := 1,
         kb := [origin_echo_vuln ''http://x.test/a'' 1 True],
         om_out := [origin_echo_creds_desc ''http://x.test/a'']\<rparr>,
    [origin_echo_vuln ''http://x.test/a'' 1 True]) \<and>
   v_severity (origin_echo_vuln ''http://x.test/a'' 1 True) = HIGH \<and>
   v_name (origin_echo_vuln ''http://x.test/a'' 1 True) =
     ''Insecure Access-Control-Allow-Origin with credentials'' \<and>
   origin_echo init ''http://x.test/a'' ''http://x.test/a'' ''http://evil.test'' 1
     (Some ''http://good.test'') (Some ''true'') None = (init, []) \<and>
   map_sum fst snd
     (analyze_server_response length init ''http://x.test/a'' ''http://x.test/a''
        ''http://evil.test'' 1 (Some ''http://evil.test'') (Some ''true'') None) =
   Inr [origin_echo_vuln ''http://x.test/a'' 1 True]"
  using origin_echo_rule[of "Some ''http://evil.test''" "''http://evil.test''" init
      "''http://x.test/a''" "''http://x.test/a''" 1 "Some ''true''" None True]
  by (simp add: origin_echo_def eval_simps origin_echo_vuln_def analyze_server_response_def
        universal_allow_def universal_origin_allow_creds_def allow_methods_def)

text \<open>
  C5 as stated fails when the probe's origin is itself \<open>*\<close>: the lower-cased
  \<open>allow_origin\<close> then contains the origin, \<open>_origin_echo\<close> fires as well, and the
  response yields three findings.
\<close>

theorem wildcard_credentials_three_findings:
  "map_sum fst (map v_severity \<circ> snd)
     (analyze_server_response length init ''http://x.test/a'' ''http://x.test/a'' ''*'' 1
        (Some ''*'') (Some ''true'') None) = Inr [LOW, HIGH, INFORMATION]"
  by (simp add: analyze_server_response_def universal_allow_def origin_echo_def
        universal_origin_allow_creds_def allow_methods_def eval_simps
        universal_allow_vuln_def origin_echo_vuln_def universal_origin_allow_creds_vuln_def)

text \<open>
  C5, as the code has it. \<open>_universal_origin_allow_creds\<close> fires exactly when
  \<open>allow_origin\<close> is \<open>*\<close> and \<open>allow_credentials\<close>, lower-cased, contains \<open>true\<close>; its
  finding has severity INFORMATION and the name \<open>Incorrect withCredentials
  implementation\<close>. On a fresh instance a response with \<open>Access-Control-Allow-Origin: *\<close>,
  \<open>Access-Control-Allow-Credentials: true\<close> and no allow-methods header yields exactly two
  findings, the LOW one of \<open>_universal_allow\<close> and the INFORMATION one, provided the
  probe's origin is neither empty nor \<open>*\<close>.
\<close>

theorem wildcard_credentials_rule:
  "(\<not> (credentials_allowed allow_credentials_str \<and> allow_origin = Some ''*'') \<longrightarrow>
      universal_origin_allow_creds st forged_req url origin response allow_origin
        allow_credentials_str allow_methods_str = (st, [])) \<and>
   (credentials_allowed allow_credentials_str \<and> allow_origin = Some ''*'' \<longrightarrow>
      (case universal_origin_allow_creds st forged_req url origin response allow_origin
              allow_credentials_str allow_methods_str of
         (st', res) \<Rightarrow>
           kb st' =
             kb st @ universal_origin_allow_creds_vuln forged_req response #
             filter is_summary res \<and>
           (getattr st Universal_origin_allow_creds_counter \<le> MAX_REPEATED_REPORTS \<longrightarrow>
              res = [universal_origin_allow_creds_vuln forged_req response]))) \<and>
   (credentials_allowed allow_credentials_str \<longleftrightarrow>
      (\<exists>c p s. allow_credentials_str = Some c \<and> lower c = p @ ''true'' @ s)) \<and>
   v_severity (universal_origin_allow_creds_vuln forged_req response) = INFORMATION \<and>
   v_name (universal_origin_allow_creds_vuln forged_req response) =
     ''Incorrect withCredentials implementation'' \<and>
   (origin \<noteq> [] \<and> origin \<noteq> ''*'' \<longrightarrow>
      map_sum fst snd
        (analyze_server_response slot init forged_req url origin response (Some ''*'')
           (Some ''true'') None) =
      Inr [universal_allow_vuln forged_req response,
           universal_origin_allow_creds_vuln forged_req response]) \<and>
   v_severity (universal_allow_vuln forged_req response) = LOW"
proof -
  let ?v = "universal_origin_allow_creds_vuln forged_req response"
  have a: "\<not> (credentials_allowed allow_credentials_str \<and> allow_origin = Some ''*'') \<longrightarrow>
      universal_origin_allow_creds st forged_req url origin response allow_origin
        allow_credentials_str allow_methods_str = (st, [])"
    using universal_origin_allow_creds_silent by blast
  have b: "credentials_allowed allow_credentials_str \<and> allow_origin = Some ''*'' \<longrightarrow>
      (case universal_origin_allow_creds st forged_req url origin response allow_origin
              allow_credentials_str allow_methods_str of
         (st', res) \<Rightarrow>
           kb st' = kb st @ ?v # filter is_summary res \<and>
           (getattr st Universal_origin_allow_creds_counter \<le> MAX_REPEATED_REPORTS \<longrightarrow>
              res = [?v]))"
  proof
    assume h: "credentials_allowed allow_credentials_str \<and> allow_origin = Some ''*''"
    then have ao: "allow_origin = Some ''*''" and cr: "credentials_allowed allow_credentials_str"
      by simp_all
    show "case universal_origin_allow_creds st forged_req url origin response allow_origin
                 allow_credentials_str allow_methods_str of
            (st', res) \<Rightarrow>
              kb st' = kb st @ ?v # filter is_summary res \<and>
              (getattr st Universal_origin_allow_creds_counter \<le> MAX_REPEATED_REPORTS \<longrightarrow>
                 res = [?v])"
      unfolding ao universal_origin_allow_creds_fires[OF cr]
      using recorded_then_filtered[OF universal_origin_allow_creds_vuln_not_summary,
          of st forged_req response universal_origin_allow_creds_msg
             Universal_origin_allow_creds_counter
             "''withCredentials CORS implementation error''" INFORMATION]
      by (auto split: prod.splits)
  qed
  have c: "v_severity ?v = INFORMATION \<and>
           v_name ?v = ''Incorrect withCredentials implementation''"
    by (simp add: universal_origin_allow_creds_vuln_def)
  have d: "origin \<noteq> [] \<and> origin \<noteq> ''*'' \<longrightarrow>
      map_sum fst snd
        (analyze_server_response slot init forged_req url origin response (Some ''*'')
           (Some ''true'') None) =
      Inr [universal_allow_vuln forged_req response, ?v]"
  proof
    assume "origin \<noteq> [] \<and> origin \<noteq> ''*''"
    then have n: "\<not> str_contains ''*'' origin" using contained_in_star by blast
    have l: "lower ''*'' = ''*''"
      by (simp add: lower_def lower_char_def upper_letters_def lower_letters_def)
    have cr: "credentials_allowed (Some ''true'')"
      by (simp add: eval_simps)
    have oe: "origin_echo st' forged_req url origin response (Some ''*'') (Some ''true'') None
                = (st', [])" for st'
      using n by (simp add: origin_echo_def Let_def l)
    show "map_sum fst snd
        (analyze_server_response slot init forged_req url origin response (Some ''*'')
           (Some ''true'') None) =
      Inr [universal_allow_vuln forged_req response, ?v]"
      unfolding analyze_server_response_def universal_allow_fires oe
        universal_origin_allow_creds_fires[OF cr]
      by (simp add: filter_report_def init_def MAX_REPEATED_REPORTS_def kb_append_def
            out_vulnerability_def Let_def allow_methods_def)
  qed
  have e: "v_severity (universal_allow_vuln forged_req response) = LOW"
    by (simp add: universal_allow_vuln_def)
  from a b c d e credentials_allowed_iff show ?thesis by blast
qed

theorem wildcard_credentials_rule_witness:
  "map_sum fst snd
     (analyze_server_response length init ''http://x.test/a'' ''http://x.test/a''
        ''http://evil.test'' 1 (Some ''*'') (Some ''true'') None) =
   Inr [universal_allow_vuln ''http://x.test/a'' 1,
        universal_origin_allow_creds_vuln ''http://x.test/a'' 1] \<and>
   universal_origin_allow_creds init ''http://x.test/a'' ''http://x.test/a''
     ''http://evil.test'' 1 (Some ''*'') (Some ''TRUE '') None =
   (init\<lparr>universal_origin_allow_creds_counter := 1,
         kb := [universal_origin_allow_creds_vuln ''http://x.test/a'' 1],
         om_out := [universal_origin_allow_creds_msg]\<rparr>,
    [universal_origin_allow_creds_vuln ''http://x.test/a'' 1]) \<and>
   universal_origin_allow_creds init ''http://x.test/a'' ''http://x.test/a''
     ''http://evil.test'' 1 (Some ''*'') (Some ''false'') None = (init, [])"
  using wildcard_credentials_rule[of "Some ''TRUE ''" "Some ''*''" init "''http://x.test/a''"
      "''http://x.test/a''" "''http://evil.test''" 1 None length]
    wildcard_credentials_rule[of "Some ''false''" "Some ''*''" init "''http://x.test/a''"
      "''http://x.test/a''" "''http://evil.test''" 1 None length]
  by (simp add: universal_origin_allow_creds_def eval_simps)

text \<open>
  C6 as stated fails in the name only: the finding's name has the asterisk between double
  quotes, not between single quotes.
\<close>

theorem wildcard_allow_name_double_quotes:
  "map v_name (snd (universal_allow init ''http://x.test/a'' ''http://x.test/a''
      ''http://evil.test'' 1 (Some ''*'') None None)) \<noteq>
   [''Access-Control-Allow-Origin set to '' @ [CHR 0x27, CHR ''*'', CHR 0x27]]"
  by (simp add: universal_allow_def eval_simps universal_allow_vuln_def)

text \<open>
  C6, as the code has it. \<open>_universal_allow\<close> fires exactly when \<open>allow_origin\<close> is the
  one-character string \<open>*\<close>, whatever the other headers are; otherwise it returns the empty
  list and changes nothing. When it fires, its one finding is the next entry of the
  knowledge base and is what the method returns while the counter is within the limit. The
  finding has severity LOW and the name \<open>Access-Control-Allow-Origin set to "*"\<close> (double
  quotes); a summary returned in its place has severity MEDIUM, the severity the throttle
  is called with.
\<close>

theorem wildcard_allow_rule:
  \<open>(allow_origin \<noteq> Some ''*'' \<longrightarrow>
      universal_allow st forged_req url origin response allow_origin allow_credentials
        allow_methods_str = (st, [])) \<and>
   (allow_origin = Some ''*'' \<longrightarrow>
      (case universal_allow st forged_req url origin response allow_origin allow_credentials
              allow_methods_str of
         (st', res) \<Rightarrow>
           kb st' = kb st @ universal_allow_vuln forged_req response # filter is_summary res \<and>
           (getattr st Universal_allow_counter \<le> MAX_REPEATED_REPORTS \<longrightarrow>
              res = [universal_allow_vuln forged_req response]) \<and>
           (\<forall>x \<in> set res. is_summary x \<longrightarrow> v_severity x = MEDIUM))) \<and>
   v_severity (universal_allow_vuln forged_req response) = LOW \<and>
   v_name (universal_allow_vuln forged_req response) =
     ''Access-Control-Allow-Origin set to "*"''\<close>
proof -
  have sev: "v_severity (summary_vuln s MEDIUM v) = MEDIUM" for s v
    by (simp add: summary_vuln_def)
  have a: "allow_origin \<noteq> Some ''*'' \<longrightarrow>
      universal_allow st forged_req url origin response allow_origin allow_credentials
        allow_methods_str = (st, [])"
    by (simp add: universal_allow_def)
  have b: "allow_origin = Some ''*'' \<longrightarrow>
      (case universal_allow st forged_req url origin response allow_origin allow_credentials
              allow_methods_str of
         (st', res) \<Rightarrow>
           kb st' = kb st @ universal_allow_vuln forged_req response # filter is_summary res \<and>
           (getattr st Universal_allow_counter \<le> MAX_REPEATED_REPORTS \<longrightarrow>
              res = [universal_allow_vuln forged_req response]) \<and>
           (\<forall>x \<in> set res. is_summary x \<longrightarrow> v_severity x = MEDIUM))"
    using recorded_then_filtered[OF universal_allow_vuln_not_summary,
        of st forged_req response universal_allow_msg Universal_allow_counter
           "''universal allow-origin''" MEDIUM]
    by (auto simp: universal_allow_def Let_def sev universal_allow_vuln_not_summary
          split: prod.splits)
  have c: \<open>v_severity (universal_allow_vuln forged_req response) = LOW \<and>
     v_name (universal_allow_vuln forged_req response) =
       ''Access-Control-Allow-Origin set to "*"''\<close>
    by (simp add: universal_allow_vuln_def)
  from a b c show ?thesis by blast
qed

theorem wildcard_allow_rule_witness:
  \<open>universal_allow init ''http://x.test/a'' ''http://x.test/a'' ''http://evil.test'' 1
     (Some ''*'') (Some ''true'') (Some ''GET'') =
   (init\<lparr>universal_allow_counter := 1,
         kb := [universal_allow_vuln ''http://x.test/a'' 1],
         om_out := [universal_allow_msg]\<rparr>,
    [universal_allow_vuln ''http://x.test/a'' 1]) \<and>
   universal_allow init ''http://x.test/a'' ''http://x.test/a'' ''http://evil.test'' 1
     (Some '' *'') None None = (init, []) \<and>
   v_severity (universal_allow_vuln ''http://x.test/a'' 1) = LOW \<and>
   v_name (universal_allow_vuln ''http://x.test/a'' 1) =
     ''Access-Control-Allow-Origin set to "*"''\<close>
  using wildcard_allow_rule[of "Some ''*''" init "''http://x.test/a''" "''http://x.test/a''"
      "''http://evil.test''" 1 "Some ''true''" "Some ''GET''"]
    wildcard_allow_rule[of "Some '' *''" init "''http://x.test/a''" "''http://x.test/a''"
      "''http://evil.test''" 1 None None]
  by (simp add: universal_allow_def eval_simps)

text \<open>
  C7. For \<open>allow_methods = "post, Get, TRACE"\<close> the claim expects one LOW finding with the
  name \<open>Uncommon CORS methods enabled\<close>. The method formats \<open>msg\<close> twice: the second
  \<open>msg % (...)\<close> reads the text of the URL, already inserted by the first, as part of the
  format. With a percent-encoded URL the second formatting raises \<open>ValueError\<close>
  (\<open>%20b\<close>: width 20, unsupported format character \<open>b\<close>) and no finding is built.
\<close>

theorem methods_rule_percent_url:
  "allow_methods length init ''http://x.test/a%20b'' ''http://x.test/a%20b''
     ''http://w3af.sourceforge.net/'' 1 None None (Some ''post, Get, TRACE'') =
   Inl (ValueError, init)"
  by (simp add: methods_simps allow_methods_msg_def ACCESS_CONTROL_ALLOW_METHODS_def
        fmt_simps)

text \<open>
  For a URL without a percent sign the method does what C7 says: the sensitive set is
  empty, the uncommon set is \<open>{TRACE}\<close>, and the finding named
  \<open>Uncommon CORS methods enabled\<close>, of severity LOW, is recorded and handed to the throttle.
\<close>

lemma methods_rule_plain_url:
  assumes "CHR ''%'' \<notin> set url"
  shows "allow_methods slot st forged_req url origin response allow_origin allow_credentials
           (Some ''post, Get, TRACE'') =
         Inr (filter_report
           (out_vulnerability
              (kb_append st
                 \<lparr> v_URL = forged_req, v_id = response, v_severity = LOW,
                   v_name = ''Uncommon CORS methods enabled'',
                   v_desc = allow_methods_msg url ''post, Get, TRACE'' @
                     '' since it allows the following uncommon HTTP methods: TRACE.'' \<rparr>)
              (allow_methods_msg url ''post, Get, TRACE'' @
                 '' since it allows the following uncommon HTTP methods: TRACE.''))
           Allow_methods_counter ''sensitive and uncommon methods'' LOW
           [\<lparr> v_URL = forged_req, v_id = response, v_severity = LOW,
              v_name = ''Uncommon CORS methods enabled'',
              v_desc = allow_methods_msg url ''post, Get, TRACE'' @
                '' since it allows the following uncommon HTTP methods: TRACE.'' \<rparr>])"
proof -
  have p: "CHR ''%'' \<notin> set (allow_methods_msg url ''post, Get, TRACE'')"
    using assms by (simp add: allow_methods_msg_def ACCESS_CONTROL_ALLOW_METHODS_def)
  have f: "py_format (allow_methods_msg url ''post, Get, TRACE'' @
              '' since it allows the following uncommon HTTP methods: %s.'')
             [''TRACE''] =
           Inr (allow_methods_msg url ''post, Get, TRACE'' @
              '' since it allows the following uncommon HTTP methods: TRACE.'')"
    unfolding py_format_def fmt_run_plain_prefix[OF p]
    by (simp add: fmt_simps)
  show ?thesis
    by (simp add: methods_simps f)
qed

subsection \<open>Configuration\<close>

text \<open>
  C8. \<open>set_options\<close> raises, and what it raises is \<open>w3afException\<close>, exactly when the
  supplied value is \<open>None\<close> or a string that is empty after \<open>strip()\<close>, which is a string
  of whitespace characters only (the empty string among them); for every other string it
  returns normally with \<open>origin_header_value\<close> set to the supplied value.
\<close>

theorem set_options_rejects_blank:
  "((\<exists>e st'. set_options st v = Inl (e, st')) \<longleftrightarrow>
      (v = None \<or> (\<exists>s. v = Some s \<and> strip s = []))) \<and>
   (\<forall>e st'. set_options st v = Inl (e, st') \<longrightarrow> e = W3afException) \<and>
   (\<forall>s. v = Some s \<and> strip s \<noteq> [] \<longrightarrow>
      set_options st v = Inr (st\<lparr>origin_header_value := Some s\<rparr>)) \<and>
   (\<forall>s. strip s = [] \<longleftrightarrow> (\<forall>c \<in> set s. is_space c))"
  by (auto simp: set_options_def Let_def strip_empty_iff split: option.splits if_splits)

theorem set_options_rejects_blank_witness:
  "set_options init None = Inl (W3afException, init\<lparr>origin_header_value := None\<rparr>) \<and>
   set_options init (Some []) = Inl (W3afException, init\<lparr>origin_header_value := Some []\<rparr>) \<and>
   set_options init (Some [CHR '' '', CHR 0x09, CHR 0x0A]) =
     Inl (W3afException, init\<lparr>origin_header_value := Some [CHR '' '', CHR 0x09, CHR 0x0A]\<rparr>) \<and>
   set_options init (Some '' http://evil.test '') =
     Inr (init\<lparr>origin_header_value := Some '' http://evil.test ''\<rparr>)"
  using set_options_rejects_blank[of init None]
    set_options_rejects_blank[of init "Some '' http://evil.test ''"]
  by (simp add: set_options_def Let_def strip_def is_space_def)

subsection \<open>The knowledge base and the throttle\<close>

text \<open>
  Each analysis method that gets as far as building its finding calls \<open>_filter_report\<close> on
  the state in which the finding is already appended to the knowledge base and a message
  already handed to the output sink: the description for \<open>_origin_echo\<close> and
  \<open>_allow_methods\<close>, the format itself for \<open>_universal_allow\<close> and
  \<open>_universal_origin_allow_creds\<close>. For \<open>_allow_methods\<close> that is the case when one of its
  two sets is non-empty and the second formatting of \<open>msg\<close> succeeds; when the formatting
  raises, the method raises with the state unchanged.
\<close>

lemma rules_record_then_filter:
  "universal_allow st forged_req url origin response (Some ''*'') allow_credentials_str
     allow_methods_str =
     filter_report
       (out_vulnerability (kb_append st (universal_allow_vuln forged_req response))
          universal_allow_msg)
       Universal_allow_counter ''universal allow-origin'' MEDIUM
       [universal_allow_vuln forged_req response] \<and>
   (str_contains (lower ao) origin \<longrightarrow>
      origin_echo st forged_req url origin response (Some ao) allow_credentials_str
        allow_methods_str =
      filter_report
        (out_vulnerability
           (kb_append st
              (origin_echo_vuln forged_req response
                 (credentials_allowed allow_credentials_str)))
           (v_desc (origin_echo_vuln forged_req response
                      (credentials_allowed allow_credentials_str))))
        Origin_echo_counter ''origin echoed in allow-origin'' HIGH
        [origin_echo_vuln forged_req response (credentials_allowed allow_credentials_str)]) \<and>
   (credentials_allowed allow_credentials_str \<longrightarrow>
      universal_origin_allow_creds st forged_req url origin response (Some ''*'')
        allow_credentials_str allow_methods_str =
      filter_report
        (out_vulnerability
           (kb_append st (universal_origin_allow_creds_vuln forged_req response))
           universal_origin_allow_creds_msg)
        Universal_origin_allow_creds_counter ''withCredentials CORS implementation error''
        INFORMATION [universal_origin_allow_creds_vuln forged_req response]) \<and>
   ((sensitive_of am \<noteq> [] \<or> strange_of slot am \<noteq> []) \<and>
    snd (allow_methods_name_msg slot (allow_methods_msg url am) (sensitive_of am)
           (strange_of slot am)) = Inr msg' \<longrightarrow>
      allow_methods slot st forged_req url origin response allow_origin
        allow_credentials_str (Some am) =
      Inr (filter_report
        (out_vulnerability
           (kb_append st
              (allow_methods_vuln forged_req response
                 (fst (allow_methods_name_msg slot (allow_methods_msg url am)
                         (sensitive_of am) (strange_of slot am)))
                 msg'))
           msg')
        Allow_methods_counter ''sensitive and uncommon methods'' LOW
        [allow_methods_vuln forged_req response
           (fst (allow_methods_name_msg slot (allow_methods_msg url am)
                   (sensitive_of am) (strange_of slot am)))
           msg'])) \<and>
   ((sensitive_of am \<noteq> [] \<or> strange_of slot am \<noteq> []) \<and>
    snd (allow_methods_name_msg slot (allow_methods_msg url am) (sensitive_of am)
           (strange_of slot am)) = Inl e \<longrightarrow>
      allow_methods slot st forged_req url origin response allow_origin
        allow_credentials_str (Some am) = Inl (e, st))"
  by (intro conjI impI)
     (rule universal_allow_fires, erule origin_echo_fires,
      erule universal_origin_allow_creds_fires,
      (erule conjE, erule (1) allow_methods_records),
      (erule conjE, erule (1) allow_methods_raises))

text \<open>
  Whatever \<open>_filter_report\<close> then returns (nothing, the finding or the summary), the
  knowledge base holds the individual finding, followed by the summary when one is
  returned.
\<close>

lemma recorded_whatever_is_returned:
  assumes "\<not> is_summary v"
  shows "case filter_report (out_vulnerability (kb_append st v) m) c s sev [v] of
           (st', res) \<Rightarrow>
             kb st' = kb st @ v # filter is_summary res \<and>
             om_out st' = om_out st @ m # map (\<lambda>x. filter_report_msg) (filter is_summary res) \<and>
             (res = [] \<or> res = [v] \<or> res = [summary_vuln s sev v])"
  using recorded_then_filtered[OF assms, of st m c s sev]
  by (auto split: prod.splits simp: filter_report_def Let_def)

text \<open>
  A suppressed call of \<open>_universal_allow\<close>, and a first call of \<open>_allow_methods\<close> on a URL
  without a percent sign.
\<close>

lemma suppressed_finding_recorded:
  "universal_allow
     (fst (run_throttle init
        (replicate 5 (Wildcard_allow, [universal_allow_vuln ''http://x.test/a'' 1]))))
     ''http://x.test/b'' ''http://x.test/b'' ''http://evil.test'' 2 (Some ''*'') None None =
   (init\<lparr>reported_global := {''universal allow-origin''},
         universal_allow_counter := 4,
         kb := [summary_vuln ''universal allow-origin'' MEDIUM
                  (universal_allow_vuln ''http://x.test/a'' 1),
                universal_allow_vuln ''http://x.test/b'' 2],
         om_out := [filter_report_msg, universal_allow_msg]\<rparr>,
    [])"
  by (simp add: numeral_eq_Suc universal_allow_def eval_simps)

lemma methods_finding_recorded:
  "allow_methods length init ''http://x.test/a'' ''http://x.test/a''
     ''http://w3af.sourceforge.net/'' 1 None None (Some ''post, Get, TRACE'') =
   Inr (init\<lparr>allow_methods_counter := 1,
             kb := [allow_methods_vuln ''http://x.test/a'' 1 ''Uncommon CORS methods enabled''
                      (allow_methods_msg ''http://x.test/a'' ''post, Get, TRACE'' @
                       '' since it allows the following uncommon HTTP methods: TRACE.'')],
             om_out := [allow_methods_msg ''http://x.test/a'' ''post, Get, TRACE'' @
                       '' since it allows the following uncommon HTTP methods: TRACE.'']\<rparr>,
        [allow_methods_vuln ''http://x.test/a'' 1 ''Uncommon CORS methods enabled''
           (allow_methods_msg ''http://x.test/a'' ''post, Get, TRACE'' @
            '' since it allows the following uncommon HTTP methods: TRACE.'')])"
proof -
  have "CHR ''%'' \<notin> set ''http://x.test/a''" by simp
  from methods_rule_plain_url[OF this] show ?thesis
    by (simp add: filter_report_def init_def MAX_REPEATED_REPORTS_def kb_append_def
          out_vulnerability_def Let_def allow_methods_vuln_def)
qed

text \<open>
  C10. Every rule that fires is to append its finding to the knowledge base and report
  it to the output sink before the throttle decides. With a percent-encoded URL and
  \<open>allow_methods = "post, Get, TRACE"\<close> the set of uncommon methods is \<open>{TRACE}\<close>, so
  \<open>_allow_methods\<close> enters its reporting branch, but the second formatting of \<open>msg\<close> raises
  \<open>ValueError\<close> before \<open>kb.kb.append\<close>: nothing is appended and nothing is printed. And what
  \<open>_universal_allow\<close> hands to the output sink is the format with its \<open>%s\<close> still in it,
  which is not the description of the finding it appended.
\<close>

theorem methods_raises_before_record:
  "strange_of length ''post, Get, TRACE'' = [''TRACE''] \<and>
   allow_methods length init ''http://x.test/a%20b'' ''http://x.test/a%20b''
     ''http://w3af.sourceforge.net/'' 1 None None (Some ''post, Get, TRACE'') =
     Inl (ValueError, init) \<and>
   kb init = [] \<and> om_out init = [] \<and>
   om_out (fst (universal_allow init ''http://x.test/a'' ''http://x.test/a''
                  ''http://w3af.sourceforge.net/'' 1 (Some ''*'') None None)) =
     [universal_allow_msg] \<and>
   universal_allow_msg \<noteq> v_desc (universal_allow_vuln ''http://x.test/a'' 1)"
proof -
  have a: "strange_of length ''post, Get, TRACE'' = [''TRACE'']"
    by (simp add: strange_of_def methods_set_def methods_simps)
  have b: "allow_methods length init ''http://x.test/a%20b'' ''http://x.test/a%20b''
     ''http://w3af.sourceforge.net/'' 1 None None (Some ''post, Get, TRACE'') =
     Inl (ValueError, init)"
    by (simp add: methods_simps allow_methods_msg_def ACCESS_CONTROL_ALLOW_METHODS_def
          fmt_simps)
  have c: "kb init = [] \<and> om_out init = []" by (simp add: init_def)
  have d: "om_out (fst (universal_allow init ''http://x.test/a'' ''http://x.test/a''
                  ''http://w3af.sourceforge.net/'' 1 (Some ''*'') None None)) =
     [universal_allow_msg]"
    by (simp add: universal_allow_def eval_simps)
  have e: "universal_allow_msg \<noteq> v_desc (universal_allow_vuln ''http://x.test/a'' 1)"
    by (simp add: universal_allow_msg_def universal_allow_vuln_def)
  from a b c d e show ?thesis by simp
qed

end
